theory Spec2Isabelle
  imports Complex_Main
begin

section \<open>Decimal numbers of bignumber.js\<close>

text \<open>
  \<^verbatim>\<open>computations.ts\<close> computes with \<^verbatim>\<open>BigNumber\<close> values of the bignumber.js
  library. A \<^verbatim>\<open>BigNumber\<close> is a finite decimal, \<^verbatim>\<open>NaN\<close>, \<^verbatim>\<open>Infinity\<close> or
  \<^verbatim>\<open>-Infinity\<close>. Sums, differences and products of finite values are exact; a quotient
  is rounded to \<^verbatim>\<open>DECIMAL_PLACES\<close> places with \<^verbatim>\<open>ROUNDING_MODE\<close>, for which the
  library's defaults (20 places, \<^verbatim>\<open>ROUND_HALF_UP\<close>) are taken, since the source file
  never configures them. No operation throws: a division by zero yields an infinity or
  \<^verbatim>\<open>NaN\<close>, and every comparison with \<^verbatim>\<open>NaN\<close> is false. The sign of a zero (bignumber.js
  has \<^verbatim>\<open>-0\<close>) and the exponent range are not modelled: every zero is the positive one.
\<close>

datatype BigNumber = BN rat | PosInf | NegInf | NaN

abbreviation bn_0 :: BigNumber where
  "bn_0 \<equiv> BN 0"

abbreviation bn_1 :: BigNumber where
  "bn_1 \<equiv> BN 1"

definition DECIMAL_PLACES :: nat where
  "DECIMAL_PLACES = 20"

text \<open>\<^verbatim>\<open>ROUND_HALF_UP\<close>: to the nearest neighbour, a tie away from zero.\<close>

definition round_half_up :: "nat \<Rightarrow> rat \<Rightarrow> rat" where
  "round_half_up n a = sgn a * of_int \<lfloor>\<bar>a\<bar> * 10 ^ n + 1 / 2\<rfloor> / 10 ^ n"

text \<open>\<^verbatim>\<open>ROUND_DOWN\<close>: towards zero.\<close>

definition round_down :: "nat \<Rightarrow> rat \<Rightarrow> rat" where
  "round_down n a = sgn a * of_int \<lfloor>\<bar>a\<bar> * 10 ^ n\<rfloor> / 10 ^ n"

definition signed_inf :: "bool \<Rightarrow> BigNumber" where
  "signed_inf positive = (if positive then PosInf else NegInf)"

fun bn_is_zero :: "BigNumber \<Rightarrow> bool" where
  "bn_is_zero (BN a) = (a = 0)"
| "bn_is_zero _ = False"

fun bn_is_positive :: "BigNumber \<Rightarrow> bool" where
  "bn_is_positive (BN a) = (0 \<le> a)"
| "bn_is_positive PosInf = True"
| "bn_is_positive _ = False"

fun bn_negated :: "BigNumber \<Rightarrow> BigNumber" where
  "bn_negated (BN a) = BN (- a)"
| "bn_negated PosInf = NegInf"
| "bn_negated NegInf = PosInf"
| "bn_negated NaN = NaN"

fun bn_abs :: "BigNumber \<Rightarrow> BigNumber" where
  "bn_abs (BN a) = BN \<bar>a\<bar>"
| "bn_abs NaN = NaN"
| "bn_abs _ = PosInf"

fun bn_plus :: "BigNumber \<Rightarrow> BigNumber \<Rightarrow> BigNumber" where
  "bn_plus (BN a) (BN b) = BN (a + b)"
| "bn_plus NaN _ = NaN"
| "bn_plus _ NaN = NaN"
| "bn_plus PosInf NegInf = NaN"
| "bn_plus NegInf PosInf = NaN"
| "bn_plus PosInf _ = PosInf"
| "bn_plus _ PosInf = PosInf"
| "bn_plus NegInf _ = NegInf"
| "bn_plus _ NegInf = NegInf"

definition bn_minus :: "BigNumber \<Rightarrow> BigNumber \<Rightarrow> BigNumber" where
  "bn_minus x y = bn_plus x (bn_negated y)"

fun bn_times :: "BigNumber \<Rightarrow> BigNumber \<Rightarrow> BigNumber" where
  "bn_times (BN a) (BN b) = BN (a * b)"
| "bn_times NaN _ = NaN"
| "bn_times _ NaN = NaN"
| "bn_times x y =
     (if bn_is_zero x \<or> bn_is_zero y then NaN
      else signed_inf (bn_is_positive x = bn_is_positive y))"

fun bn_div :: "BigNumber \<Rightarrow> BigNumber \<Rightarrow> BigNumber" where
  "bn_div (BN a) (BN b) =
     (if b = 0 then (if a = 0 then NaN else signed_inf (0 < a))
      else BN (round_half_up DECIMAL_PLACES (a / b)))"
| "bn_div NaN _ = NaN"
| "bn_div _ NaN = NaN"
| "bn_div (BN a) _ = BN 0"
| "bn_div x (BN b) = signed_inf (bn_is_positive x = (0 \<le> b))"
| "bn_div _ _ = NaN"

fun bn_lt :: "BigNumber \<Rightarrow> BigNumber \<Rightarrow> bool" where
  "bn_lt (BN a) (BN b) = (a < b)"
| "bn_lt NaN _ = False"
| "bn_lt _ NaN = False"
| "bn_lt PosInf _ = False"
| "bn_lt _ NegInf = False"
| "bn_lt _ PosInf = True"
| "bn_lt NegInf _ = True"

definition bn_eq :: "BigNumber \<Rightarrow> BigNumber \<Rightarrow> bool" where
  "bn_eq x y = (x \<noteq> NaN \<and> x = y)"

definition bn_gt :: "BigNumber \<Rightarrow> BigNumber \<Rightarrow> bool" where
  "bn_gt x y = bn_lt y x"

definition bn_lte :: "BigNumber \<Rightarrow> BigNumber \<Rightarrow> bool" where
  "bn_lte x y = (bn_lt x y \<or> bn_eq x y)"

definition bn_gte :: "BigNumber \<Rightarrow> BigNumber \<Rightarrow> bool" where
  "bn_gte x y = (bn_lt y x \<or> bn_eq x y)"

text \<open>\<^verbatim>\<open>BigNumber.minimum\<close> (\<^verbatim>\<open>min\<close>) and \<^verbatim>\<open>BigNumber.maximum\<close> (\<^verbatim>\<open>max\<close>) of two
  arguments: \<^verbatim>\<open>NaN\<close> when an argument is \<^verbatim>\<open>NaN\<close>.\<close>

definition bn_minimum :: "BigNumber \<Rightarrow> BigNumber \<Rightarrow> BigNumber" where
  "bn_minimum x y = (if x = NaN \<or> y = NaN then NaN else if bn_lt y x then y else x)"

definition bn_maximum :: "BigNumber \<Rightarrow> BigNumber \<Rightarrow> BigNumber" where
  "bn_maximum x y = (if x = NaN \<or> y = NaN then NaN else if bn_lt x y then y else x)"

text \<open>\<^verbatim>\<open>x.dp(n, BigNumber.ROUND_DOWN)\<close>; a value that is not finite is returned as it is.\<close>

fun bn_dp_round_down :: "nat \<Rightarrow> BigNumber \<Rightarrow> BigNumber" where
  "bn_dp_round_down n (BN a) = BN (round_down n a)"
| "bn_dp_round_down n x = x"

fun bn_finite :: "BigNumber \<Rightarrow> bool" where
  "bn_finite (BN a) = True"
| "bn_finite _ = False"

section \<open>Data model\<close>

record Asset =
  symbol :: string
  isStable :: bool
  isTradable :: bool
  isOpenable :: bool
  isShortable :: bool
  isEnabled :: bool
  useStableTokenForProfit :: bool
  initialMarginRate :: BigNumber
  maintenanceMarginRate :: BigNumber
  positionFeeRate :: BigNumber
  minProfitTime :: int
  minProfitRate :: BigNumber
  halfSpread :: BigNumber
  longCumulativeFundingRate :: BigNumber
  shortCumulativeFunding :: BigNumber
  spotLiquidity :: BigNumber

record LiquidityPool =
  liquidityBaseFeeRate :: BigNumber
  liquidityDynamicFeeRate :: BigNumber

text \<open>The field \<^verbatim>\<open>size\<close> is \<open>size_sa\<close> here. The two times are whole seconds.\<close>

record SubAccount =
  collateral :: BigNumber
  size_sa :: BigNumber
  entryPrice :: BigNumber
  entryFunding :: BigNumber
  lastIncreasedTime :: int

text \<open>
  A \<^verbatim>\<open>SubAccount\<close> is a JavaScript object that the simulation functions assign to, and
  the result of a simulation holds a reference to the object it worked on. Objects live
  in a store: a reference is an index into the list of all sub-account objects.
\<close>

type_synonym ref = nat

type_synonym heap = "SubAccount list"

record SubAccountComputed =
  positionValueUsd :: BigNumber
  fundingFeeUsd :: BigNumber
  pendingPnlUsd :: BigNumber
  pendingPnlAfterFundingUsd :: BigNumber
  pnlUsd :: BigNumber
  marginBalanceUsd :: BigNumber
  isIMSafe :: bool
  isMMSafe :: bool
  isMarginSafe :: bool
  leverage :: BigNumber
  effectiveLeverage :: BigNumber
  pendingRoe :: BigNumber
  liquidationPrice :: BigNumber
  withdrawableCollateral :: BigNumber
  withdrawableProfit :: BigNumber

record SubAccountDetails =
  subAccount :: ref
  computed :: SubAccountComputed

text \<open>\<^verbatim>\<open>WithdrawCollateralResult\<close> is \<open>TradeResult\<close>; \<^verbatim>\<open>ClosePositionResult\<close> and
  \<^verbatim>\<open>WithdrawProfitResult\<close> are \<open>TransferResult\<close>; the field \<^verbatim>\<open>fundingFeeUsd\<close> of
  \<^verbatim>\<open>OpenPositionResult\<close> is \<open>openFundingFeeUsd\<close>.\<close>

record TradeResult =
  afterTrade :: SubAccountDetails
  isTradeSafe :: bool
  feeUsd :: BigNumber

record OpenPositionResult = TradeResult +
  openFundingFeeUsd :: BigNumber

record TransferResult = TradeResult +
  profitAssetTransferred :: BigNumber
  bitoroTokenTransferred :: BigNumber

type_synonym PriceDict = "string \<rightharpoonup> BigNumber"

datatype SpreadType = Ask | Bid

datatype error =
  InvalidArgumentError string
| InsufficientLiquidityError string
| BugError string
| Error string
| TypeError

text \<open>
  \<^verbatim>\<open>decodeSubAccountId\<close> (of \<^verbatim>\<open>data.ts\<close>, which is not among the sources) is a
  parameter of every function that calls it: it gives \<^verbatim>\<open>collateralId\<close>, \<^verbatim>\<open>assetId\<close>
  and \<^verbatim>\<open>isLong\<close> of an identifier.
\<close>

type_synonym decoder = "string \<Rightarrow> nat \<times> nat \<times> bool"

text \<open>\<^verbatim>\<open>Math.ceil(Date.now() / 1000)\<close>, for a reading \<open>now\<close> of the clock in
  milliseconds. Every function that reads the clock takes its readings as arguments, in
  the order in which it makes them.\<close>

definition nowSeconds :: "nat \<Rightarrow> int" where
  "nowSeconds now = int ((now + 999) div 1000)"

section \<open>Valuation\<close>

text \<open>\<^verbatim>\<open>computePositionPnlUsd\<close> returns \<^verbatim>\<open>{ pendingPnlUsd, pnlUsd }\<close>, here a pair in
  that order. It reads the clock once (\<open>now\<close>).\<close>

definition computePositionPnlUsd ::
  "nat \<Rightarrow> Asset \<Rightarrow> SubAccount \<Rightarrow> bool \<Rightarrow> BigNumber \<Rightarrow> BigNumber \<Rightarrow> BigNumber \<times> BigNumber" where
  "computePositionPnlUsd now asset sa isLong amount assetPrice =
     (if bn_eq amount bn_0 then (bn_0, bn_0)
      else
        let priceDelta =
              (if isLong then bn_minus assetPrice (entryPrice sa)
               else bn_minus (entryPrice sa) assetPrice);
            pendingPnl = bn_times priceDelta amount
        in
          if bn_gt priceDelta bn_0 \<and>
             nowSeconds now < lastIncreasedTime sa + minProfitTime asset \<and>
             bn_lt (bn_abs priceDelta) (bn_times (minProfitRate asset) (entryPrice sa))
          then (pendingPnl, bn_0)
          else (pendingPnl, pendingPnl))"

definition computeFundingFeeUsd ::
  "SubAccount \<Rightarrow> Asset \<Rightarrow> bool \<Rightarrow> BigNumber \<Rightarrow> BigNumber" where
  "computeFundingFeeUsd sa asset isLong assetPrice =
     (if bn_eq (size_sa sa) bn_0 then bn_0
      else
        let cumulativeFunding =
              (if isLong then
                 bn_times (bn_minus (longCumulativeFundingRate asset) (entryFunding sa)) assetPrice
               else bn_minus (shortCumulativeFunding asset) (entryFunding sa))
        in bn_times cumulativeFunding (size_sa sa))"

definition computePositionFeeUsd :: "Asset \<Rightarrow> BigNumber \<Rightarrow> BigNumber \<Rightarrow> BigNumber" where
  "computePositionFeeUsd asset amount assetPrice =
     (if bn_eq amount bn_0 then bn_0
      else bn_times (bn_times assetPrice (positionFeeRate asset)) amount)"

definition computeFeeUsd ::
  "SubAccount \<Rightarrow> Asset \<Rightarrow> bool \<Rightarrow> BigNumber \<Rightarrow> BigNumber \<Rightarrow> BigNumber" where
  "computeFeeUsd sa asset isLong amount assetPrice =
     bn_plus (computeFundingFeeUsd sa asset isLong assetPrice)
       (computePositionFeeUsd asset amount assetPrice)"

text \<open>\<^verbatim>\<open>_updateEntryFunding\<close> assigns to the object \<open>sa\<close> of the store.\<close>

definition updateEntryFunding :: "heap \<Rightarrow> ref \<Rightarrow> Asset \<Rightarrow> bool \<Rightarrow> heap" where
  "updateEntryFunding h sa asset isLong =
     (if isLong then h[sa := (h ! sa)\<lparr>entryFunding := longCumulativeFundingRate asset\<rparr>]
      else h[sa := (h ! sa)\<lparr>entryFunding := shortCumulativeFunding asset\<rparr>])"

text \<open>\<^verbatim>\<open>_estimateLiquidationPrice\<close>. Its callers have read a field of
  \<^verbatim>\<open>assets[assetId]\<close> before, so the asset exists here.\<close>

definition estimateLiquidationPrice ::
  "Asset list \<Rightarrow> nat \<Rightarrow> nat \<Rightarrow> bool \<Rightarrow> SubAccount \<Rightarrow> BigNumber \<Rightarrow> BigNumber \<Rightarrow> BigNumber" where
  "estimateLiquidationPrice assets collateralId assetId isLong sa collateralPrice fundingFee =
     (if bn_eq (size_sa sa) bn_0 then bn_0
      else
        let longFactor = (if isLong then bn_1 else bn_negated bn_1);
            t = bn_times (bn_minus longFactor (maintenanceMarginRate (assets ! assetId)))
                  (size_sa sa);
            p = (if collateralId = assetId then
                   let p1 = bn_times (bn_times longFactor (entryPrice sa)) (size_sa sa);
                       p2 = bn_div (bn_plus p1 fundingFee) (bn_plus t (collateral sa))
                   in bn_maximum bn_0 p2
                 else
                   let p1 = bn_times (bn_times longFactor (entryPrice sa)) (size_sa sa);
                       p2 = bn_minus (bn_plus p1 fundingFee)
                              (bn_times collateralPrice (collateral sa));
                       p3 = bn_div p2 t
                   in bn_maximum bn_0 p3)
        in
          if isLong then bn_div p (bn_minus bn_1 (halfSpread (assets ! assetId)))
          else bn_div p (bn_plus bn_1 (halfSpread (assets ! assetId))))"

text \<open>
  \<^verbatim>\<open>computeSubAccount\<close> reads the object \<open>sa\<close> and the clock (once, in
  \<^verbatim>\<open>computePositionPnlUsd\<close>). When \<^verbatim>\<open>assets[assetId]\<close> is \<^verbatim>\<open>undefined\<close>, reading
  \<^verbatim>\<open>initialMarginRate\<close> of it throws a \<^verbatim>\<open>TypeError\<close>, whatever the account is.
\<close>

definition computeSubAccount ::
  "decoder \<Rightarrow> nat \<Rightarrow> Asset list \<Rightarrow> string \<Rightarrow> heap \<Rightarrow> ref \<Rightarrow> BigNumber \<Rightarrow> BigNumber
     \<Rightarrow> error + SubAccountDetails" where
  "computeSubAccount decodeSubAccountId now assets subAccountId h sa collateralPrice assetPrice =
     (let (collateralId, assetId, isLong) = decodeSubAccountId subAccountId in
      if length assets \<le> assetId then Inl TypeError
      else
        let asset = assets ! assetId;
            positionValue = bn_times assetPrice (size_sa (h ! sa));
            fundingFee = computeFundingFeeUsd (h ! sa) asset isLong assetPrice;
            (pendingPnl, pnl) =
              computePositionPnlUsd now asset (h ! sa) isLong (size_sa (h ! sa)) assetPrice;
            pendingPnlAfterFunding = bn_minus pendingPnl fundingFee;
            pnlAfterFunding = bn_minus pnl fundingFee;
            collateralValue = bn_times (collateral (h ! sa)) collateralPrice;
            marginBalance = bn_plus collateralValue pendingPnlAfterFunding;
            imSafe = bn_gte marginBalance (bn_times positionValue (initialMarginRate asset));
            mmSafe = bn_gte marginBalance (bn_times positionValue (maintenanceMarginRate asset));
            marginSafe = bn_gte marginBalance bn_0;
            lev = (if bn_gt collateralValue bn_0 then
                     bn_div (bn_times (entryPrice (h ! sa)) (size_sa (h ! sa))) collateralValue
                   else bn_0);
            effectiveLev = (if bn_gt marginBalance bn_0 then bn_div positionValue marginBalance
                            else bn_0);
            roe = (if bn_gt collateralValue bn_0 then bn_div pendingPnlAfterFunding collateralValue
                   else bn_0);
            liqPrice = estimateLiquidationPrice assets collateralId assetId isLong (h ! sa)
                         collateralPrice fundingFee;
            safeImr = bn_maximum (initialMarginRate asset) (BN (1 / 100));
            wc1 = bn_minimum
                    (bn_minus (bn_plus collateralValue pnlAfterFunding)
                       (bn_times positionValue safeImr))
                    (bn_minus (bn_minus collateralValue fundingFee)
                       (bn_times (bn_times (entryPrice (h ! sa)) (size_sa (h ! sa))) safeImr));
            wc2 = bn_maximum bn_0 wc1;
            wc3 = bn_div wc2 collateralPrice;
            wp1 = bn_minimum
                    (bn_minus (bn_plus collateralValue pnlAfterFunding)
                       (bn_times positionValue safeImr))
                    pnlAfterFunding;
            wp2 = bn_maximum bn_0 wp1;
            wp3 = (if isLong then bn_div wp2 assetPrice else wp2)
        in Inr \<lparr>subAccount = sa,
                computed = \<lparr>positionValueUsd = positionValue,
                  fundingFeeUsd = fundingFee,
                  pendingPnlUsd = pendingPnl,
                  pendingPnlAfterFundingUsd = pendingPnlAfterFunding,
                  pnlUsd = pnl,
                  marginBalanceUsd = marginBalance,
                  isIMSafe = imSafe,
                  isMMSafe = mmSafe,
                  isMarginSafe = marginSafe,
                  leverage = lev,
                  effectiveLeverage = effectiveLev,
                  pendingRoe = roe,
                  liquidationPrice = liqPrice,
                  withdrawableCollateral = wc3,
                  withdrawableProfit = wp3\<rparr>\<rparr>)"

section \<open>Pricing\<close>

definition computePriceWithSpread :: "Asset \<Rightarrow> BigNumber \<Rightarrow> SpreadType \<Rightarrow> error + BigNumber" where
  "computePriceWithSpread asset price spreadType =
     (if bn_eq (halfSpread asset) bn_0 then Inr price
      else
        let hs = bn_times price (halfSpread asset) in
        if spreadType = Bid then
          (if bn_lte price hs then Inl (BugError ''price - halfSpread = 0. impossible'')
           else Inr (bn_minus price hs))
        else Inr (bn_plus price hs))"

text \<open>\<^verbatim>\<open>computeTradingPrice\<close> returns \<^verbatim>\<open>{ assetPrice, collateralPrice }\<close>, here a pair
  in that order. A symbol without a price is \<^verbatim>\<open>undefined\<close> in the \<^verbatim>\<open>PriceDict\<close>.\<close>

definition computeTradingPrice ::
  "decoder \<Rightarrow> Asset list \<Rightarrow> string \<Rightarrow> PriceDict \<Rightarrow> bool \<Rightarrow> error + BigNumber \<times> BigNumber" where
  "computeTradingPrice decodeSubAccountId assets subAccountId prices isOpenPosition =
     (let (collateralId, assetId, isLong) = decodeSubAccountId subAccountId in
      if length assets \<le> collateralId then Inl (InvalidArgumentError ''missing asset'')
      else if length assets \<le> assetId then Inl (InvalidArgumentError ''missing asset'')
      else
        case prices (symbol (assets ! collateralId)) of
          None \<Rightarrow> Inl (InvalidArgumentError ''invalid price'')
        | Some collateralPrice \<Rightarrow>
            if bn_lte collateralPrice bn_0 then Inl (InvalidArgumentError ''invalid price'')
            else
              (case prices (symbol (assets ! assetId)) of
                 None \<Rightarrow> Inl (InvalidArgumentError ''invalid price'')
               | Some assetPrice \<Rightarrow>
                   if bn_lte assetPrice bn_0 then Inl (InvalidArgumentError ''invalid price'')
                   else
                     let spreadType =
                           (if isOpenPosition then (if isLong then Ask else Bid)
                            else (if isLong then Bid else Ask))
                     in
                       (case computePriceWithSpread (assets ! assetId) assetPrice spreadType of
                          Inl e \<Rightarrow> Inl e
                        | Inr p \<Rightarrow> Inr (p, collateralPrice))))"

section \<open>Profit and loss realization\<close>

text \<open>\<^verbatim>\<open>computeRealizeProfit\<close> returns
  \<^verbatim>\<open>{ deductUsd, profitAssetTransferred, bitoroTokenTransferred }\<close>, here a triple in that
  order.\<close>

definition computeRealizeProfit ::
  "BigNumber \<Rightarrow> BigNumber \<Rightarrow> Asset \<Rightarrow> BigNumber \<Rightarrow> BigNumber \<times> BigNumber \<times> BigNumber" where
  "computeRealizeProfit profitUsd fee profitAsset profitAssetPrice =
     (let deductUsd = bn_minimum profitUsd fee;
          profitLeft = bn_minus profitUsd deductUsd
      in
        if bn_gt profitLeft bn_0 then
          let profitCollateral = bn_div profitLeft profitAssetPrice;
              spot = bn_minimum profitCollateral (spotLiquidity profitAsset);
              transferred = (if bn_gt spot bn_0 then spot else bn_0);
              debtWadAmount = bn_minus profitCollateral spot;
              debt = (if bn_gt debtWadAmount bn_0 then debtWadAmount else bn_0)
          in (deductUsd, transferred, debt)
        else (deductUsd, bn_0, bn_0))"

text \<open>\<^verbatim>\<open>computeRealizeLoss\<close> assigns to the object \<open>sa\<close>, or throws before it has
  assigned anything.\<close>

definition computeRealizeLoss ::
  "heap \<Rightarrow> ref \<Rightarrow> BigNumber \<Rightarrow> BigNumber \<Rightarrow> bool \<Rightarrow> error + heap" where
  "computeRealizeLoss h sa collateralPrice lossUsd isThrowBankrupt =
     (if bn_eq lossUsd bn_0 then Inr h
      else
        let lossCollateral = bn_div lossUsd collateralPrice in
        if isThrowBankrupt then
          (if bn_lt (collateral (h ! sa)) lossCollateral then Inl (Error ''bankrupt'')
           else Inr (h[sa := (h ! sa)\<lparr>collateral :=
                       bn_minus (collateral (h ! sa)) lossCollateral\<rparr>]))
        else
          let clamped = bn_minimum lossCollateral (collateral (h ! sa))
          in Inr (h[sa := (h ! sa)\<lparr>collateral := bn_minus (collateral (h ! sa)) clamped\<rparr>]))"

section \<open>Trade simulation\<close>

text \<open>
  Modelled from the spec: \<^verbatim>\<open>cloneSubAccount\<close> (of \<^verbatim>\<open>types.ts\<close>, which is not among the
  sources). Every simulation function works on a cloned copy of its argument: the clone
  is a new object of the store with the fields of the old one. The fields are
  \<^verbatim>\<open>BigNumber\<close> values and a number; no operation of bignumber.js changes a value in
  place, so it does not matter whether the two objects share them.
\<close>

definition cloneSubAccount :: "heap \<Rightarrow> ref \<Rightarrow> heap \<times> ref" where
  "cloneSubAccount h a = (h @ [h ! a], length h)"

text \<open>
  The choice of the profit asset, which \<^verbatim>\<open>computeClosePosition\<close> (lines 333 to 348) and
  \<^verbatim>\<open>computeWithdrawProfit\<close> (lines 461 to 476) make with the same statements: the new
  \<^verbatim>\<open>profitAssetId\<close> and \<^verbatim>\<open>profitAssetPrice\<close>.
\<close>

definition resolveProfitAsset ::
  "Asset list \<Rightarrow> nat \<Rightarrow> bool \<Rightarrow> BigNumber \<Rightarrow> nat \<Rightarrow> PriceDict \<Rightarrow> error + nat \<times> BigNumber" where
  "resolveProfitAsset assets assetId isLong assetPrice profitAssetId prices =
     (if isLong \<and> \<not> useStableTokenForProfit (assets ! assetId) then Inr (assetId, assetPrice)
      else if length assets \<le> profitAssetId then Inl (InvalidArgumentError ''missing asset'')
      else if \<not> isStable (assets ! profitAssetId) then
        Inl (InvalidArgumentError ''profit asset should be a stable coin'')
      else
        case prices (symbol (assets ! profitAssetId)) of
          None \<Rightarrow> Inl (InvalidArgumentError ''invalid price'')
        | Some profitAssetPrice \<Rightarrow>
            if bn_lte profitAssetPrice bn_0 then Inl (InvalidArgumentError ''invalid price'')
            else Inr (profitAssetId, profitAssetPrice))"

text \<open>\<^verbatim>\<open>computeOpenPosition\<close> reads the clock three times: in
  \<^verbatim>\<open>computePositionPnlUsd\<close>, for \<^verbatim>\<open>lastIncreasedTime\<close>, and in \<^verbatim>\<open>computeSubAccount\<close>.
  A simulation returns the store it leaves and its result or the error it throws.\<close>

definition computeOpenPosition ::
  "decoder \<Rightarrow> nat \<Rightarrow> nat \<Rightarrow> nat \<Rightarrow> Asset list \<Rightarrow> string \<Rightarrow> heap \<Rightarrow> ref \<Rightarrow> PriceDict
     \<Rightarrow> BigNumber \<Rightarrow> BigNumber \<Rightarrow> heap \<times> (error + OpenPositionResult)" where
  "computeOpenPosition decodeSubAccountId now1 now2 now3 assets subAccountId h0 subAccount0
       prices amount brokerGasFee =
     (let (h1, sa) = cloneSubAccount h0 subAccount0;
          (collateralId, assetId, isLong) = decodeSubAccountId subAccountId
      in
        case computeTradingPrice decodeSubAccountId assets subAccountId prices True of
          Inl e \<Rightarrow> (h1, Inl e)
        | Inr (assetPrice, collateralPrice) \<Rightarrow>
            if bn_lte amount bn_0 then (h1, Inl (InvalidArgumentError ''invalid amount''))
            else if bn_lt brokerGasFee bn_0 then
              (h1, Inl (InvalidArgumentError ''invalid gasFee''))
            else if isStable (assets ! assetId) \<or>
                    \<not> isTradable (assets ! assetId) \<or>
                    \<not> isOpenable (assets ! assetId) \<or>
                    \<not> isEnabled (assets ! assetId) \<or>
                    \<not> isEnabled (assets ! collateralId) \<or>
                    (\<not> isLong \<and> \<not> isShortable (assets ! assetId)) then
              (h1, Inl (InvalidArgumentError ''not tradable''))
            else
              let fundingFee = computeFundingFeeUsd (h1 ! sa) (assets ! assetId) isLong assetPrice;
                  fee = computeFeeUsd (h1 ! sa) (assets ! assetId) isLong amount assetPrice;
                  h2 = updateEntryFunding h1 sa (assets ! assetId) isLong;
                  feeCollateral = bn_plus (bn_div fee collateralPrice) brokerGasFee;
                  h3 = h2[sa := (h2 ! sa)\<lparr>collateral :=
                          bn_minus (collateral (h2 ! sa)) feeCollateral\<rparr>];
                  (pendingPnl, pnl) =
                    computePositionPnlUsd now1 (assets ! assetId) (h3 ! sa) isLong amount assetPrice;
                  newSize = bn_plus (size_sa (h3 ! sa)) amount;
                  h4 = (if bn_eq pnl bn_0 then h3[sa := (h3 ! sa)\<lparr>entryPrice := assetPrice\<rparr>]
                        else h3[sa := (h3 ! sa)\<lparr>entryPrice :=
                               bn_div
                                 (bn_plus (bn_times (entryPrice (h3 ! sa)) (size_sa (h3 ! sa)))
                                    (bn_times assetPrice amount))
                                 newSize\<rparr>]);
                  h5 = h4[sa := (h4 ! sa)\<lparr>size_sa := newSize\<rparr>];
                  h6 = h5[sa := (h5 ! sa)\<lparr>lastIncreasedTime := nowSeconds now2\<rparr>]
              in
                (case computeSubAccount decodeSubAccountId now3 assets subAccountId h6 sa
                        collateralPrice assetPrice of
                   Inl e \<Rightarrow> (h6, Inl e)
                 | Inr details \<Rightarrow>
                     (h6, Inr \<lparr>afterTrade = details,
                               isTradeSafe = isIMSafe (computed details),
                               feeUsd = fee,
                               openFundingFeeUsd = fundingFee\<rparr>)))"

text \<open>
  The step ``realize pnl'' of \<^verbatim>\<open>computeClosePosition\<close> (lines 369 to 380): the store
  and \<^verbatim>\<open>paidFeeUsd\<close>, \<^verbatim>\<open>profitAssetTransferred\<close> and \<^verbatim>\<open>bitoroTokenTransferred\<close> after
  it, or the error of \<^verbatim>\<open>computeRealizeLoss\<close>.
\<close>

definition realizePnl ::
  "heap \<Rightarrow> ref \<Rightarrow> BigNumber \<Rightarrow> BigNumber \<Rightarrow> BigNumber \<Rightarrow> Asset \<Rightarrow> BigNumber
     \<Rightarrow> error + heap \<times> BigNumber \<times> BigNumber \<times> BigNumber" where
  "realizePnl h sa collateralPrice pnl totalFeeUsd profitAsset profitAssetPrice =
     (if bn_gt pnl bn_0 then
        let (deductUsd, transferred, debt) =
              computeRealizeProfit pnl totalFeeUsd profitAsset profitAssetPrice
        in Inr (h, deductUsd, transferred, debt)
      else if bn_lt pnl bn_0 then
        (case computeRealizeLoss h sa collateralPrice (bn_negated pnl) True of
           Inl e \<Rightarrow> Inl e
         | Inr h' \<Rightarrow> Inr (h', bn_0, bn_0, bn_0))
      else Inr (h, bn_0, bn_0, bn_0))"

text \<open>
  The next step of \<^verbatim>\<open>computeClosePosition\<close> (lines 381 to 386): the size
  is reduced, and an account that is flat now is reset.
\<close>

definition reducePosition :: "heap \<Rightarrow> ref \<Rightarrow> BigNumber \<Rightarrow> heap" where
  "reducePosition h sa amount =
     (let h1 = h[sa := (h ! sa)\<lparr>size_sa := bn_minus (size_sa (h ! sa)) amount\<rparr>]
      in
        if bn_eq (size_sa (h1 ! sa)) bn_0 then
          h1[sa := (h1 ! sa)\<lparr>entryPrice := bn_0, entryFunding := bn_0,
                  lastIncreasedTime := 0\<rparr>]
        else h1)"

text \<open>
  The last step of \<^verbatim>\<open>computeClosePosition\<close> before its post check (lines 387 to 401,
  ``ignore fees if can not afford''): the fee that the realized profit has not paid, and
  the gas, are taken from the collateral. It gives the store and the new \<^verbatim>\<open>paidFeeUsd\<close>.
\<close>

definition settleFeeFromCollateral ::
  "heap \<Rightarrow> ref \<Rightarrow> BigNumber \<Rightarrow> BigNumber \<Rightarrow> BigNumber \<Rightarrow> BigNumber \<Rightarrow> heap \<times> BigNumber" where
  "settleFeeFromCollateral h sa collateralPrice brokerGasFee totalFeeUsd paidFeeUsd =
     (if bn_gt brokerGasFee bn_0 \<or> bn_gt totalFeeUsd paidFeeUsd then
        let feeCollateral = bn_div (bn_minus totalFeeUsd paidFeeUsd) collateralPrice;
            feeAndGasCollateral = bn_plus feeCollateral brokerGasFee;
            (feeAndGasTaken, feeTaken) =
              (if bn_lt (collateral (h ! sa)) feeAndGasCollateral then
                 (collateral (h ! sa),
                  if bn_lt (collateral (h ! sa)) brokerGasFee then bn_0
                  else bn_minus (collateral (h ! sa)) brokerGasFee)
               else (feeAndGasCollateral, feeCollateral))
        in (h[sa := (h ! sa)\<lparr>collateral := bn_minus (collateral (h ! sa)) feeAndGasTaken\<rparr>],
            bn_plus paidFeeUsd (bn_times feeTaken collateralPrice))
      else (h, paidFeeUsd))"

text \<open>\<^verbatim>\<open>computeClosePosition\<close> reads the clock twice: in \<^verbatim>\<open>computePositionPnlUsd\<close>
  and in \<^verbatim>\<open>computeSubAccount\<close>.\<close>

definition computeClosePosition ::
  "decoder \<Rightarrow> nat \<Rightarrow> nat \<Rightarrow> Asset list \<Rightarrow> string \<Rightarrow> heap \<Rightarrow> ref \<Rightarrow> nat \<Rightarrow> PriceDict
     \<Rightarrow> BigNumber \<Rightarrow> BigNumber \<Rightarrow> heap \<times> (error + TransferResult)" where
  "computeClosePosition decodeSubAccountId now1 now2 assets subAccountId h0 subAccount0
       profitAssetId0 prices amount brokerGasFee =
     (let (h1, sa) = cloneSubAccount h0 subAccount0;
          (collateralId, assetId, isLong) = decodeSubAccountId subAccountId
      in
        case computeTradingPrice decodeSubAccountId assets subAccountId prices False of
          Inl e \<Rightarrow> (h1, Inl e)
        | Inr (assetPrice, collateralPrice) \<Rightarrow>
            (case resolveProfitAsset assets assetId isLong assetPrice profitAssetId0 prices of
               Inl e \<Rightarrow> (h1, Inl e)
             | Inr (profitAssetId, profitAssetPrice) \<Rightarrow>
                 if bn_lte amount bn_0 \<or> bn_gt amount (size_sa (h1 ! sa)) then
                   (h1, Inl (InvalidArgumentError ''invalid amount''))
                 else if bn_lt brokerGasFee bn_0 then
                   (h1, Inl (InvalidArgumentError ''invalid gasFee''))
                 else if isStable (assets ! assetId) \<or>
                         \<not> isTradable (assets ! assetId) \<or>
                         \<not> isEnabled (assets ! assetId) \<or>
                         \<not> isEnabled (assets ! collateralId) \<or>
                         (\<not> isLong \<and> \<not> isShortable (assets ! assetId)) then
                   (h1, Inl (InvalidArgumentError ''not tradable''))
                 else
                   let totalFeeUsd =
                         computeFeeUsd (h1 ! sa) (assets ! assetId) isLong amount assetPrice;
                       h2 = updateEntryFunding h1 sa (assets ! assetId) isLong;
                       (pendingPnl, pnl) =
                         computePositionPnlUsd now1 (assets ! assetId) (h2 ! sa) isLong amount
                           assetPrice
                   in
                     (case realizePnl h2 sa collateralPrice pnl totalFeeUsd
                             (assets ! profitAssetId) profitAssetPrice of
                        Inl e \<Rightarrow> (h2, Inl e)
                      | Inr (h3, paidFeeUsd, transferred, debt) \<Rightarrow>
                          let h5 = reducePosition h3 sa amount;
                              (h6, paidFee) =
                                settleFeeFromCollateral h5 sa collateralPrice brokerGasFee
                                  totalFeeUsd paidFeeUsd
                          in
                            (case computeSubAccount decodeSubAccountId now2 assets subAccountId
                                    h6 sa collateralPrice assetPrice of
                               Inl e \<Rightarrow> (h6, Inl e)
                             | Inr details \<Rightarrow>
                                 (h6, Inr \<lparr>afterTrade = details,
                                           isTradeSafe = isMarginSafe (computed details),
                                           feeUsd = paidFee,
                                           profitAssetTransferred = transferred,
                                           bitoroTokenTransferred = debt\<rparr>)))))"

text \<open>\<^verbatim>\<open>computeWithdrawCollateral\<close> reads the clock once, in \<^verbatim>\<open>computeSubAccount\<close>.\<close>

definition computeWithdrawCollateral ::
  "decoder \<Rightarrow> nat \<Rightarrow> Asset list \<Rightarrow> string \<Rightarrow> heap \<Rightarrow> ref \<Rightarrow> PriceDict \<Rightarrow> BigNumber
     \<Rightarrow> heap \<times> (error + TradeResult)" where
  "computeWithdrawCollateral decodeSubAccountId now assets subAccountId h0 subAccount0 prices
       amount =
     (let (h1, sa) = cloneSubAccount h0 subAccount0;
          (collateralId, assetId, isLong) = decodeSubAccountId subAccountId
      in
        case computeTradingPrice decodeSubAccountId assets subAccountId prices False of
          Inl e \<Rightarrow> (h1, Inl e)
        | Inr (assetPrice, collateralPrice) \<Rightarrow>
            if bn_lte amount bn_0 then (h1, Inl (InvalidArgumentError ''invalid amount''))
            else if \<not> isEnabled (assets ! assetId) \<or> \<not> isEnabled (assets ! collateralId) then
              (h1, Inl (InvalidArgumentError ''not tradable''))
            else
              let totalFeeUsd =
                    computeFundingFeeUsd (h1 ! sa) (assets ! assetId) isLong assetPrice;
                  h2 = (if bn_gt (size_sa (h1 ! sa)) bn_0 then
                          updateEntryFunding h1 sa (assets ! assetId) isLong
                        else h1);
                  feeCollateral = bn_div totalFeeUsd collateralPrice;
                  h3 = h2[sa := (h2 ! sa)\<lparr>collateral :=
                          bn_minus (collateral (h2 ! sa)) feeCollateral\<rparr>];
                  h4 = h3[sa := (h3 ! sa)\<lparr>collateral := bn_minus (collateral (h3 ! sa)) amount\<rparr>]
              in
                (case computeSubAccount decodeSubAccountId now assets subAccountId h4 sa
                        collateralPrice assetPrice of
                   Inl e \<Rightarrow> (h4, Inl e)
                 | Inr details \<Rightarrow>
                     (h4, Inr \<lparr>afterTrade = details,
                               isTradeSafe = isIMSafe (computed details),
                               feeUsd = totalFeeUsd\<rparr>)))"

text \<open>\<^verbatim>\<open>computeWithdrawProfit\<close> reads the clock twice: in \<^verbatim>\<open>computePositionPnlUsd\<close>
  and in \<^verbatim>\<open>computeSubAccount\<close>.\<close>

definition computeWithdrawProfit ::
  "decoder \<Rightarrow> nat \<Rightarrow> nat \<Rightarrow> Asset list \<Rightarrow> string \<Rightarrow> heap \<Rightarrow> ref \<Rightarrow> nat \<Rightarrow> PriceDict
     \<Rightarrow> BigNumber \<Rightarrow> heap \<times> (error + TransferResult)" where
  "computeWithdrawProfit decodeSubAccountId now1 now2 assets subAccountId h0 subAccount0
       profitAssetId0 prices amount =
     (let (h1, sa) = cloneSubAccount h0 subAccount0;
          (collateralId, assetId, isLong) = decodeSubAccountId subAccountId
      in
        case computeTradingPrice decodeSubAccountId assets subAccountId prices False of
          Inl e \<Rightarrow> (h1, Inl e)
        | Inr (assetPrice, collateralPrice) \<Rightarrow>
            (case resolveProfitAsset assets assetId isLong assetPrice profitAssetId0 prices of
               Inl e \<Rightarrow> (h1, Inl e)
             | Inr (profitAssetId, profitAssetPrice) \<Rightarrow>
                 if bn_lte amount bn_0 then (h1, Inl (InvalidArgumentError ''invalid amount''))
                 else if isStable (assets ! assetId) \<or>
                         \<not> isTradable (assets ! assetId) \<or>
                         \<not> isEnabled (assets ! assetId) \<or>
                         \<not> isEnabled (assets ! collateralId) \<or>
                         (\<not> isLong \<and> \<not> isShortable (assets ! assetId)) then
                   (h1, Inl (InvalidArgumentError ''not tradable''))
                 else if bn_eq (size_sa (h1 ! sa)) bn_0 then
                   (h1, Inl (InvalidArgumentError ''empty position''))
                 else
                   let totalFeeUsd =
                         computeFundingFeeUsd (h1 ! sa) (assets ! assetId) isLong assetPrice;
                       h2 = updateEntryFunding h1 sa (assets ! assetId) isLong;
                       deltaUsd = bn_plus (bn_times amount profitAssetPrice) totalFeeUsd;
                       (pendingPnl, pnl) =
                         computePositionPnlUsd now1 (assets ! assetId) (h2 ! sa) isLong
                           (size_sa (h2 ! sa)) assetPrice
                   in
                     if bn_lt pnl deltaUsd then (h2, Inl (Error ''insufficient pnl''))
                     else
                       let (deductUsd, transferred, debt) =
                             computeRealizeProfit pnl totalFeeUsd (assets ! profitAssetId)
                               profitAssetPrice;
                           h3 = (if isLong then
                                   h2[sa := (h2 ! sa)\<lparr>entryPrice :=
                                        bn_plus (entryPrice (h2 ! sa))
                                          (bn_div deltaUsd (size_sa (h2 ! sa)))\<rparr>]
                                 else
                                   h2[sa := (h2 ! sa)\<lparr>entryPrice :=
                                        bn_minus (entryPrice (h2 ! sa))
                                          (bn_div deltaUsd (size_sa (h2 ! sa)))\<rparr>])
                       in
                         (case computeSubAccount decodeSubAccountId now2 assets subAccountId h3
                                 sa collateralPrice assetPrice of
                            Inl e \<Rightarrow> (h3, Inl e)
                          | Inr details \<Rightarrow>
                              (h3, Inr \<lparr>afterTrade = details,
                                        isTradeSafe = isIMSafe (computed details),
                                        feeUsd = totalFeeUsd,
                                        profitAssetTransferred = transferred,
                                        bitoroTokenTransferred = debt\<rparr>))))"

section \<open>Liquidity fee\<close>

definition computeLiquidityFeeRate ::
  "LiquidityPool \<Rightarrow> BigNumber \<Rightarrow> BigNumber \<Rightarrow> bool \<Rightarrow> BigNumber \<Rightarrow> error + BigNumber" where
  "computeLiquidityFeeRate poolConfig currentAssetValue targetAssetValue isAdd deltaValue =
     (let baseFeeRate = liquidityBaseFeeRate poolConfig;
          dynamicFeeRate = liquidityDynamicFeeRate poolConfig
      in
        if \<not> isAdd \<and> bn_lt currentAssetValue deltaValue then
          Inl (InsufficientLiquidityError ''removed value > liquidity'')
        else
          let newAssetValue =
                (if isAdd then bn_plus currentAssetValue deltaValue
                 else bn_minus currentAssetValue deltaValue);
              oldDiff = bn_abs (bn_minus currentAssetValue targetAssetValue);
              newDiff = bn_abs (bn_minus newAssetValue targetAssetValue)
          in
            if bn_eq targetAssetValue bn_0 then Inr baseFeeRate
            else if bn_lt newDiff oldDiff then
              let rebate =
                    bn_dp_round_down 5 (bn_div (bn_times dynamicFeeRate oldDiff) targetAssetValue)
              in Inr (bn_maximum bn_0 (bn_minus baseFeeRate rebate))
            else
              let avgDiff = bn_div (bn_plus oldDiff newDiff) (BN 2);
                  avgCapped = bn_minimum avgDiff targetAssetValue;
                  dynamic =
                    bn_dp_round_down 5 (bn_div (bn_times dynamicFeeRate avgCapped) targetAssetValue)
              in Inr (bn_plus baseFeeRate dynamic))"

section \<open>Properties of stores and accounts\<close>

text \<open>The store \<open>h\<close> is the store \<open>h0\<close> with one more object.\<close>

definition extends :: "heap \<Rightarrow> heap \<Rightarrow> bool" where
  "extends h0 h = (\<exists>s. h = h0 @ [s])"

text \<open>The invariant of a flat account: when \<^verbatim>\<open>size\<close> is zero, \<^verbatim>\<open>entryPrice\<close>,
  \<^verbatim>\<open>entryFunding\<close> and \<^verbatim>\<open>lastIncreasedTime\<close> are zero.\<close>

definition flatInvariant :: "SubAccount \<Rightarrow> bool" where
  "flatInvariant s =
     (bn_eq (size_sa s) bn_0 \<longrightarrow>
        entryPrice s = bn_0 \<and> entryFunding s = bn_0 \<and> lastIncreasedTime s = 0)"

section \<open>A market for the examples\<close>

text \<open>
  A long position in the asset 1 (ETH at 100, half spread 1 percent, so 99 to close and
  101 to open) on the collateral 0 (a stable coin at 1). A profit is locked for 60
  seconds after the position was increased, while the price has moved by less than 2
  percent.
\<close>

definition exampleDecode :: decoder where
  "exampleDecode subAccountId = (0, 1, True)"

definition exampleStable :: Asset where
  "exampleStable =
     \<lparr>symbol = ''USDC'', isStable = True, isTradable = False, isOpenable = False,
      isShortable = False, isEnabled = True, useStableTokenForProfit = False,
      initialMarginRate = BN 0, maintenanceMarginRate = BN 0, positionFeeRate = BN 0,
      minProfitTime = 0, minProfitRate = BN 0, halfSpread = BN 0,
      longCumulativeFundingRate = BN 0, shortCumulativeFunding = BN 0,
      spotLiquidity = BN 1000\<rparr>"

definition exampleAsset :: Asset where
  "exampleAsset =
     \<lparr>symbol = ''ETH'', isStable = False, isTradable = True, isOpenable = True,
      isShortable = True, isEnabled = True, useStableTokenForProfit = False,
      initialMarginRate = BN (1 / 10), maintenanceMarginRate = BN (1 / 20),
      positionFeeRate = BN (1 / 1000), minProfitTime = 60, minProfitRate = BN (1 / 50),
      halfSpread = BN (1 / 100), longCumulativeFundingRate = BN (1 / 100),
      shortCumulativeFunding = BN 0, spotLiquidity = BN 1000\<rparr>"

definition exampleAssets :: "Asset list" where
  "exampleAssets = [exampleStable, exampleAsset]"

definition examplePrices :: PriceDict where
  "examplePrices = [''USDC'' \<mapsto> BN 1, ''ETH'' \<mapsto> BN 100]"

text \<open>An account with the given collateral, size and entry price, last increased at the
  second 1000.\<close>

definition exampleAccount :: "rat \<Rightarrow> rat \<Rightarrow> rat \<Rightarrow> SubAccount" where
  "exampleAccount c s e =
     \<lparr>collateral = BN c, size_sa = BN s, entryPrice = BN e, entryFunding = BN 0,
      lastIncreasedTime = 1000\<rparr>"

section \<open>Lemmas on the decimal numbers\<close>

lemma bn_gte_not_lt: "bn_gte x y \<Longrightarrow> \<not> bn_lt x y"
  by (cases x; cases y) (auto simp: bn_gte_def bn_eq_def)

lemma bn_gt_0_not_eq: "bn_gt x bn_0 \<Longrightarrow> \<not> bn_eq x bn_0"
  by (cases x) (auto simp: bn_gt_def bn_eq_def)

lemma bn_plus_positive_nonzero:
  "bn_gte s bn_0 \<Longrightarrow> \<not> bn_lte amount bn_0 \<Longrightarrow> \<not> bn_eq (bn_plus s amount) bn_0"
  by (cases s; cases amount) (auto simp: bn_gte_def bn_lte_def bn_eq_def)

lemma bn_minus_self: "bn_finite x \<Longrightarrow> bn_eq y x \<Longrightarrow> bn_eq (bn_minus x y) bn_0"
  by (cases x; cases y) (auto simp: bn_minus_def bn_eq_def)


section \<open>Lemmas on the valuation and the prices\<close>

lemma computeSubAccount_ref:
  "computeSubAccount dec now assets sid h sa cp ap = Inr d \<Longrightarrow> subAccount d = sa"
  by (auto simp: computeSubAccount_def Let_def split: prod.splits if_splits)

lemma computeSubAccount_Inr:
  "dec sid = (c, a, l) \<Longrightarrow> a < length assets \<Longrightarrow>
   \<exists>d. computeSubAccount dec now assets sid h sa cp ap = Inr d"
  by (auto simp: computeSubAccount_def Let_def split: prod.splits if_splits)

lemma computeSubAccount_no_error:
  "dec sid = (c, a, l) \<Longrightarrow> a < length assets \<Longrightarrow>
   computeSubAccount dec now assets sid h sa cp ap = Inl e \<Longrightarrow> False"
  by (auto simp: computeSubAccount_def Let_def split: prod.splits if_splits)

lemma computeSubAccount_error:
  "computeSubAccount dec now assets sid h sa cp ap = Inl (Error m) \<Longrightarrow> False"
  by (auto simp: computeSubAccount_def Let_def split: prod.splits if_splits)

lemma computePriceWithSpread_error:
  "computePriceWithSpread asset p t = Inl (Error m) \<Longrightarrow> False"
  by (auto simp: computePriceWithSpread_def Let_def split: if_splits)

lemma computeTradingPrice_error:
  "computeTradingPrice dec assets sid prices b = Inl (Error m) \<Longrightarrow> False"
  by (auto simp: computeTradingPrice_def Let_def
      split: prod.splits if_splits option.splits sum.splits dest: computePriceWithSpread_error)

lemma computeTradingPrice_ids:
  "computeTradingPrice dec assets sid prices b = Inr (ap, cp) \<Longrightarrow> dec sid = (c, a, l) \<Longrightarrow>
   c < length assets \<and> a < length assets"
  by (auto simp: computeTradingPrice_def Let_def
      split: prod.splits if_splits option.splits sum.splits)

lemma resolveProfitAsset_error:
  "resolveProfitAsset assets a l ap pid prices = Inl (Error m) \<Longrightarrow> False"
  by (auto simp: resolveProfitAsset_def split: if_splits option.splits)

lemma computePositionPnlUsd_entryFunding [simp]:
  "computePositionPnlUsd now asset (s\<lparr>entryFunding := x\<rparr>) l amount ap =
   computePositionPnlUsd now asset s l amount ap"
  by (simp add: computePositionPnlUsd_def)

lemma result_exists:
  assumes "\<And>e. snd x \<noteq> Inl e"
  shows "\<exists>h' res. x = (h', Inr res)"
proof (cases x)
  case (Pair h' y)
  with assms show ?thesis by (cases y) auto
qed

section \<open>Lemmas on the store\<close>

lemma extends_clone: "extends h0 (h0 @ [s])"
  by (simp add: extends_def)

lemma extends_nth: "extends h0 h \<Longrightarrow> r < length h0 \<Longrightarrow> h ! r = h0 ! r"
  by (auto simp: extends_def nth_append)

lemma extends_update: "extends h0 (h[length h0 := s]) = extends h0 h"
proof
  assume "extends h0 (h[length h0 := s])"
  then obtain t where t: "h[length h0 := s] = h0 @ [t]"
    by (auto simp: extends_def)
  then have len: "length h = Suc (length h0)"
    by (metis length_append_singleton length_list_update)
  have nth: "h ! i = (h0 @ [h ! length h0]) ! i" if "i < length h" for i
  proof (cases "i = length h0")
    case True
    then show ?thesis by simp
  next
    case False
    with that len have i: "i < length h0" by simp
    from False have "h ! i = (h[length h0 := s]) ! i" by simp
    also have "\<dots> = h0 ! i" using t i by (simp add: nth_append)
    finally show ?thesis using i by (simp add: nth_append)
  qed
  have "h = h0 @ [h ! length h0]"
  proof (rule nth_equalityI)
    show "length h = length (h0 @ [h ! length h0])"
      using len by simp
  next
    fix i
    assume "i < length h"
    then show "h ! i = (h0 @ [h ! length h0]) ! i"
      by (rule nth)
  qed
  then show "extends h0 h"
    unfolding extends_def by blast
next
  assume "extends h0 h"
  then show "extends h0 (h[length h0 := s])"
    by (auto simp: extends_def)
qed

lemma extends_updateEntryFunding:
  "extends h0 (updateEntryFunding h (length h0) asset isLong) = extends h0 h"
  by (simp add: updateEntryFunding_def extends_update)

lemma extends_reducePosition:
  "extends h0 (reducePosition h (length h0) amount) = extends h0 h"
  by (simp add: reducePosition_def Let_def extends_update)

lemma extends_computeRealizeLoss:
  "computeRealizeLoss h (length h0) cp loss b = Inr h' \<Longrightarrow> extends h0 h' = extends h0 h"
  by (auto simp: computeRealizeLoss_def Let_def extends_update split: if_splits)

lemma extends_realizePnl:
  "realizePnl h (length h0) cp pnl fee a pp = Inr (h', x) \<Longrightarrow> extends h0 h' = extends h0 h"
  by (auto simp: realizePnl_def Let_def split: if_splits prod.splits sum.splits
      dest: extends_computeRealizeLoss)

lemma extends_settleFeeFromCollateral:
  "settleFeeFromCollateral h (length h0) cp gas fee paid = (h', x) \<Longrightarrow>
   extends h0 h' = extends h0 h"
  by (auto simp: settleFeeFromCollateral_def Let_def extends_update split: if_splits prod.splits)

lemmas extends_simps =
  extends_clone extends_update extends_updateEntryFunding extends_reducePosition

lemma extends_computeOpenPosition:
  "extends h0 (fst (computeOpenPosition dec now1 now2 now3 assets sid h0 r prices amount gas))"
  unfolding computeOpenPosition_def cloneSubAccount_def Let_def
  by (auto split: prod.splits sum.splits if_splits simp: extends_simps)

lemma extends_computeClosePosition:
  "extends h0 (fst (computeClosePosition dec now1 now2 assets sid h0 r pid prices amount gas))"
  unfolding computeClosePosition_def cloneSubAccount_def Let_def
  by (auto split: prod.splits sum.splits if_splits simp: extends_simps
      dest!: extends_realizePnl extends_settleFeeFromCollateral)

lemma extends_computeWithdrawCollateral:
  "extends h0 (fst (computeWithdrawCollateral dec now assets sid h0 r prices amount))"
  unfolding computeWithdrawCollateral_def cloneSubAccount_def Let_def
  by (auto split: prod.splits sum.splits if_splits simp: extends_simps)

lemma extends_computeWithdrawProfit:
  "extends h0 (fst (computeWithdrawProfit dec now1 now2 assets sid h0 r pid prices amount))"
  unfolding computeWithdrawProfit_def cloneSubAccount_def Let_def
  by (auto split: prod.splits sum.splits if_splits simp: extends_simps)

section \<open>The example market, evaluated\<close>

lemma example_decode: "exampleDecode ''id'' = (0, 1, True)"
  by (simp add: exampleDecode_def)

lemma example_close_price:
  "computeTradingPrice exampleDecode exampleAssets ''id'' examplePrices False = Inr (BN 99, BN 1)"
  by (simp add: computeTradingPrice_def exampleDecode_def exampleAssets_def exampleAsset_def
      exampleStable_def examplePrices_def computePriceWithSpread_def bn_lte_def bn_eq_def
      bn_minus_def)

lemma example_open_price:
  "computeTradingPrice exampleDecode exampleAssets ''id'' examplePrices True = Inr (BN 101, BN 1)"
  by (simp add: computeTradingPrice_def exampleDecode_def exampleAssets_def exampleAsset_def
      exampleStable_def examplePrices_def computePriceWithSpread_def bn_lte_def bn_eq_def
      bn_minus_def)

lemma example_profit_asset:
  "resolveProfitAsset exampleAssets 1 True (BN 99) 0 examplePrices = Inr (1, BN 99)"
  by (simp add: resolveProfitAsset_def exampleAssets_def exampleAsset_def)

lemma example_tradable:
  "\<not> (isStable (exampleAssets ! 1) \<or> \<not> isTradable (exampleAssets ! 1) \<or>
       \<not> isEnabled (exampleAssets ! 1) \<or> \<not> isEnabled (exampleAssets ! 0) \<or>
       (\<not> True \<and> \<not> isShortable (exampleAssets ! 1)))"
  by (simp add: exampleAssets_def exampleAsset_def exampleStable_def)

lemmas example_defs =
  exampleDecode_def exampleAssets_def exampleAsset_def exampleStable_def examplePrices_def
  exampleAccount_def

lemmas bn_defs =
  bn_eq_def bn_gt_def bn_lte_def bn_gte_def bn_minus_def bn_minimum_def bn_maximum_def
  signed_inf_def

lemmas valuation_defs =
  computePositionPnlUsd_def computeFundingFeeUsd_def computePositionFeeUsd_def
  computeFeeUsd_def nowSeconds_def Let_def

section \<open>Withdrawing profit\<close>

text \<open>Once its arguments are valid and the realized pnl covers the withdrawal,
  \<^verbatim>\<open>computeWithdrawProfit\<close> throws nothing.\<close>

lemma computeWithdrawProfit_no_error:
  assumes "dec sid = (c, a, isLong)"
    and "computeTradingPrice dec assets sid prices False = Inr (ap, cp)"
    and "resolveProfitAsset assets a isLong ap pid0 prices = Inr (pid, pp)"
    and "\<not> bn_lte amount bn_0"
    and "\<not> (isStable (assets ! a) \<or> \<not> isTradable (assets ! a) \<or> \<not> isEnabled (assets ! a) \<or>
            \<not> isEnabled (assets ! c) \<or> (\<not> isLong \<and> \<not> isShortable (assets ! a)))"
    and "\<not> bn_eq (size_sa (h0 ! r)) bn_0"
    and "\<not> bn_lt (snd (computePositionPnlUsd now1 (assets ! a) (h0 ! r) isLong
                          (size_sa (h0 ! r)) ap))
            (bn_plus (bn_times amount pp) (computeFundingFeeUsd (h0 ! r) (assets ! a) isLong ap))"
  shows "snd (computeWithdrawProfit dec now1 now2 assets sid h0 r pid0 prices amount) \<noteq> Inl e"
proof -
  from computeTradingPrice_ids [OF assms(2,1)] have a: "a < length assets"
    by simp
  show ?thesis
    using assms computeSubAccount_no_error [of dec sid c a isLong assets, OF assms(1) a]
    unfolding computeWithdrawProfit_def cloneSubAccount_def updateEntryFunding_def Let_def
    by (auto split: prod.splits sum.splits if_splits)
qed

text \<open>
  Claim C9. When \<^verbatim>\<open>computeWithdrawProfit\<close> returns, the account it returns has the
  collateral and the size of the account it was given: the withdrawal and the funding fee
  change the entry price only, never the collateral or the size of the position.
\<close>

theorem computeWithdrawProfit_keeps_collateral_and_size:
  assumes "computeWithdrawProfit dec now1 now2 assets sid h0 r pid0 prices amount = (h', Inr res)"
  shows "collateral (h' ! subAccount (afterTrade res)) = collateral (h0 ! r) \<and>
         size_sa (h' ! subAccount (afterTrade res)) = size_sa (h0 ! r)"
  using assms
  unfolding computeWithdrawProfit_def cloneSubAccount_def updateEntryFunding_def Let_def
  by (auto split: prod.splits sum.splits if_splits dest!: computeSubAccount_ref)

text \<open>In the example market a long position of 2 entered at 89 has a pnl of 20 at the
  closing price 99 and a funding fee of 1.98: a withdrawal of 0.1 ETH is covered.\<close>

lemma example_withdrawProfit_returns:
  "\<exists>h' res. computeWithdrawProfit exampleDecode 2000000 2000000 exampleAssets ''id''
              [exampleAccount 10 2 89] 0 0 examplePrices (BN (1 / 10)) = (h', Inr res)"
proof (rule result_exists)
  fix e
  show "snd (computeWithdrawProfit exampleDecode 2000000 2000000 exampleAssets ''id''
              [exampleAccount 10 2 89] 0 0 examplePrices (BN (1 / 10))) \<noteq> Inl e"
  proof (rule computeWithdrawProfit_no_error [OF example_decode example_close_price
        example_profit_asset _ example_tradable])
    show "\<not> bn_lte (BN (1 / 10)) bn_0"
      by (simp add: bn_defs)
    show "\<not> bn_eq (size_sa ([exampleAccount 10 2 89] ! 0)) bn_0"
      by (simp add: example_defs bn_defs)
    show "\<not> bn_lt (snd (computePositionPnlUsd 2000000 (exampleAssets ! 1)
                          ([exampleAccount 10 2 89] ! 0) True
                          (size_sa ([exampleAccount 10 2 89] ! 0)) (BN 99)))
            (bn_plus (bn_times (BN (1 / 10)) (BN 99))
               (computeFundingFeeUsd ([exampleAccount 10 2 89] ! 0) (exampleAssets ! 1) True
                  (BN 99)))"
      by (simp add: example_defs bn_defs valuation_defs)
  qed
qed

theorem computeWithdrawProfit_keeps_collateral_and_size_witness:
  "\<exists>h' res. computeWithdrawProfit exampleDecode 2000000 2000000 exampleAssets ''id''
              [exampleAccount 10 2 89] 0 0 examplePrices (BN (1 / 10)) = (h', Inr res) \<and>
            collateral (h' ! subAccount (afterTrade res)) = BN 10 \<and>
            size_sa (h' ! subAccount (afterTrade res)) = BN 2"
proof -
  from example_withdrawProfit_returns obtain h' res
    where run: "computeWithdrawProfit exampleDecode 2000000 2000000 exampleAssets ''id''
              [exampleAccount 10 2 89] 0 0 examplePrices (BN (1 / 10)) = (h', Inr res)"
    by blast
  from computeWithdrawProfit_keeps_collateral_and_size [OF run]
  have "collateral (h' ! subAccount (afterTrade res)) = BN 10 \<and>
        size_sa (h' ! subAccount (afterTrade res)) = BN 2"
    by (simp add: exampleAccount_def)
  with run show ?thesis by blast
qed

text \<open>
  Claim C6. When \<^verbatim>\<open>computeWithdrawProfit\<close> returns, with
  \<open>deltaUsd = amount * profitAssetPrice + fundingFeeUsd\<close>, the entry price of the account
  it returns is the old entry price plus \<open>deltaUsd / size\<close> for a long position and the
  old entry price minus \<open>deltaUsd / size\<close> for a short one. The quotient is the one of
  bignumber.js, and the size is not zero, or the function would have thrown.
\<close>

theorem computeWithdrawProfit_shifts_entryPrice:
  assumes "computeWithdrawProfit dec now1 now2 assets sid h0 r pid0 prices amount = (h', Inr res)"
    and "dec sid = (c, a, isLong)"
    and "computeTradingPrice dec assets sid prices False = Inr (ap, cp)"
    and "resolveProfitAsset assets a isLong ap pid0 prices = Inr (pid, pp)"
    and "deltaUsd =
           bn_plus (bn_times amount pp) (computeFundingFeeUsd (h0 ! r) (assets ! a) isLong ap)"
  shows "entryPrice (h' ! subAccount (afterTrade res)) =
           (if isLong then bn_plus (entryPrice (h0 ! r)) (bn_div deltaUsd (size_sa (h0 ! r)))
            else bn_minus (entryPrice (h0 ! r)) (bn_div deltaUsd (size_sa (h0 ! r))))"
  using assms
  unfolding computeWithdrawProfit_def cloneSubAccount_def updateEntryFunding_def Let_def
  by (auto split: prod.splits sum.splits if_splits dest!: computeSubAccount_ref)

theorem computeWithdrawProfit_shifts_entryPrice_witness:
  "\<exists>h' res. computeWithdrawProfit exampleDecode 2000000 2000000 exampleAssets ''id''
              [exampleAccount 10 2 89] 0 0 examplePrices (BN (1 / 10)) = (h', Inr res) \<and>
            entryPrice (h' ! subAccount (afterTrade res)) = BN (4747 / 50)"
proof -
  from example_withdrawProfit_returns obtain h' res
    where run: "computeWithdrawProfit exampleDecode 2000000 2000000 exampleAssets ''id''
              [exampleAccount 10 2 89] 0 0 examplePrices (BN (1 / 10)) = (h', Inr res)"
    by blast
  have delta: "BN (297 / 25) =
      bn_plus (bn_times (BN (1 / 10)) (BN 99))
        (computeFundingFeeUsd ([exampleAccount 10 2 89] ! 0) (exampleAssets ! 1) True (BN 99))"
    by (simp add: example_defs bn_defs valuation_defs)
  have quotient: "round_half_up DECIMAL_PLACES (297 / 50) = 297 / 50"
    by code_simp
  from computeWithdrawProfit_shifts_entryPrice [OF run example_decode example_close_price
      example_profit_asset delta]
  have "entryPrice (h' ! subAccount (afterTrade res)) = BN (4747 / 50)"
    by (simp add: exampleAccount_def quotient)
  with run show ?thesis by blast
qed

text \<open>
  Claim C5. \<^verbatim>\<open>computeWithdrawProfit\<close> throws ``insufficient pnl'' exactly when every
  check before has passed (the trading prices, the profit asset, the amount, the state of
  the assets, a position that is not empty) and the realized pnl of the whole position at
  the asset price with its spread is less than
  \<open>deltaUsd = amount * profitAssetPrice + fundingFeeUsd\<close>. It returns no result then, and
  the caller's account is what it was.
\<close>

theorem computeWithdrawProfit_insufficient_pnl:
  assumes "dec sid = (c, a, isLong)" and "r < length h0"
  shows "(snd (computeWithdrawProfit dec now1 now2 assets sid h0 r pid0 prices amount) =
            Inl (Error ''insufficient pnl'') \<longleftrightarrow>
          (\<exists>ap cp pid pp.
             computeTradingPrice dec assets sid prices False = Inr (ap, cp) \<and>
             resolveProfitAsset assets a isLong ap pid0 prices = Inr (pid, pp) \<and>
             \<not> bn_lte amount bn_0 \<and>
             \<not> (isStable (assets ! a) \<or> \<not> isTradable (assets ! a) \<or> \<not> isEnabled (assets ! a) \<or>
                 \<not> isEnabled (assets ! c) \<or> (\<not> isLong \<and> \<not> isShortable (assets ! a))) \<and>
             \<not> bn_eq (size_sa (h0 ! r)) bn_0 \<and>
             bn_lt (snd (computePositionPnlUsd now1 (assets ! a) (h0 ! r) isLong
                           (size_sa (h0 ! r)) ap))
               (bn_plus (bn_times amount pp)
                  (computeFundingFeeUsd (h0 ! r) (assets ! a) isLong ap)))) \<and>
         fst (computeWithdrawProfit dec now1 now2 assets sid h0 r pid0 prices amount) ! r = h0 ! r"
proof (intro conjI iffI)
  assume "snd (computeWithdrawProfit dec now1 now2 assets sid h0 r pid0 prices amount) =
            Inl (Error ''insufficient pnl'')"
  then show "\<exists>ap cp pid pp.
             computeTradingPrice dec assets sid prices False = Inr (ap, cp) \<and>
             resolveProfitAsset assets a isLong ap pid0 prices = Inr (pid, pp) \<and>
             \<not> bn_lte amount bn_0 \<and>
             \<not> (isStable (assets ! a) \<or> \<not> isTradable (assets ! a) \<or> \<not> isEnabled (assets ! a) \<or>
                 \<not> isEnabled (assets ! c) \<or> (\<not> isLong \<and> \<not> isShortable (assets ! a))) \<and>
             \<not> bn_eq (size_sa (h0 ! r)) bn_0 \<and>
             bn_lt (snd (computePositionPnlUsd now1 (assets ! a) (h0 ! r) isLong
                           (size_sa (h0 ! r)) ap))
               (bn_plus (bn_times amount pp)
                  (computeFundingFeeUsd (h0 ! r) (assets ! a) isLong ap))"
    using assms(1)
    unfolding computeWithdrawProfit_def cloneSubAccount_def updateEntryFunding_def Let_def
    by (auto split: prod.splits sum.splits if_splits
        dest: computeTradingPrice_error resolveProfitAsset_error computeSubAccount_error)
next
  assume "\<exists>ap cp pid pp.
             computeTradingPrice dec assets sid prices False = Inr (ap, cp) \<and>
             resolveProfitAsset assets a isLong ap pid0 prices = Inr (pid, pp) \<and>
             \<not> bn_lte amount bn_0 \<and>
             \<not> (isStable (assets ! a) \<or> \<not> isTradable (assets ! a) \<or> \<not> isEnabled (assets ! a) \<or>
                 \<not> isEnabled (assets ! c) \<or> (\<not> isLong \<and> \<not> isShortable (assets ! a))) \<and>
             \<not> bn_eq (size_sa (h0 ! r)) bn_0 \<and>
             bn_lt (snd (computePositionPnlUsd now1 (assets ! a) (h0 ! r) isLong
                           (size_sa (h0 ! r)) ap))
               (bn_plus (bn_times amount pp)
                  (computeFundingFeeUsd (h0 ! r) (assets ! a) isLong ap))"
  then show "snd (computeWithdrawProfit dec now1 now2 assets sid h0 r pid0 prices amount) =
            Inl (Error ''insufficient pnl'')"
    using assms(1)
    unfolding computeWithdrawProfit_def cloneSubAccount_def updateEntryFunding_def Let_def
    by (auto split: prod.splits sum.splits if_splits)
next
  show "fst (computeWithdrawProfit dec now1 now2 assets sid h0 r pid0 prices amount) ! r = h0 ! r"
    using extends_computeWithdrawProfit assms(2) by (rule extends_nth)
qed

theorem computeWithdrawProfit_insufficient_pnl_witness:
  "snd (computeWithdrawProfit exampleDecode 2000000 2000000 exampleAssets ''id''
          [exampleAccount 10 2 89] 0 0 examplePrices (BN 1)) = Inl (Error ''insufficient pnl'') \<and>
   fst (computeWithdrawProfit exampleDecode 2000000 2000000 exampleAssets ''id''
          [exampleAccount 10 2 89] 0 0 examplePrices (BN 1)) ! 0 = exampleAccount 10 2 89"
proof -
  have len: "0 < length [exampleAccount 10 2 89]"
    by simp
  have "\<exists>ap cp pid pp.
          computeTradingPrice exampleDecode exampleAssets ''id'' examplePrices False =
            Inr (ap, cp) \<and>
          resolveProfitAsset exampleAssets 1 True ap 0 examplePrices = Inr (pid, pp) \<and>
          \<not> bn_lte (BN 1) bn_0 \<and>
          \<not> (isStable (exampleAssets ! 1) \<or> \<not> isTradable (exampleAssets ! 1) \<or>
              \<not> isEnabled (exampleAssets ! 1) \<or> \<not> isEnabled (exampleAssets ! 0) \<or>
              (\<not> True \<and> \<not> isShortable (exampleAssets ! 1))) \<and>
          \<not> bn_eq (size_sa ([exampleAccount 10 2 89] ! 0)) bn_0 \<and>
          bn_lt (snd (computePositionPnlUsd 2000000 (exampleAssets ! 1)
                        ([exampleAccount 10 2 89] ! 0) True
                        (size_sa ([exampleAccount 10 2 89] ! 0)) ap))
            (bn_plus (bn_times (BN 1) pp)
               (computeFundingFeeUsd ([exampleAccount 10 2 89] ! 0) (exampleAssets ! 1) True ap))"
    using example_close_price example_profit_asset
    by (intro exI [of _ "BN 99"] exI [of _ "BN 1"] exI [of _ 1])
       (simp add: example_defs bn_defs valuation_defs)
  with computeWithdrawProfit_insufficient_pnl [where dec = exampleDecode and sid = "''id''"
      and c = 0 and a = 1 and isLong = True and r = 0 and ?h0.0 = "[exampleAccount 10 2 89]"
      and ?now1.0 = 2000000 and ?now2.0 = 2000000 and assets = exampleAssets and ?pid0.0 = 0
      and prices = examplePrices and amount = "BN 1", OF example_decode len]
  show ?thesis by simp
qed

section \<open>Withdrawing collateral\<close>



section \<open>The caller's account\<close>

text \<open>
  Claim C2. \<^verbatim>\<open>computeOpenPosition\<close>, \<^verbatim>\<open>computeClosePosition\<close>,
  \<^verbatim>\<open>computeWithdrawCollateral\<close> and \<^verbatim>\<open>computeWithdrawProfit\<close> never assign to the
  \<^verbatim>\<open>SubAccount\<close> object they are given: in the store they leave, whether they return or
  throw, the caller's object has every field as before the call.
\<close>

theorem simulations_keep_the_callers_account:
  assumes "subAccount0 < length h0"
  shows "fst (computeOpenPosition dec now1 now2 now3 assets sid h0 subAccount0 prices amount gas)
           ! subAccount0 = h0 ! subAccount0 \<and>
         fst (computeClosePosition dec now1 now2 assets sid h0 subAccount0 pid prices amount gas)
           ! subAccount0 = h0 ! subAccount0 \<and>
         fst (computeWithdrawCollateral dec now1 assets sid h0 subAccount0 prices amount)
           ! subAccount0 = h0 ! subAccount0 \<and>
         fst (computeWithdrawProfit dec now1 now2 assets sid h0 subAccount0 pid prices amount)
           ! subAccount0 = h0 ! subAccount0"
  using assms
  by (simp add: extends_nth [OF extends_computeOpenPosition]
      extends_nth [OF extends_computeClosePosition]
      extends_nth [OF extends_computeWithdrawCollateral]
      extends_nth [OF extends_computeWithdrawProfit])

theorem simulations_keep_the_callers_account_witness:
  "fst (computeOpenPosition exampleDecode 2000000 2000000 2000000 exampleAssets ''id''
          [exampleAccount 10 1 99] 0 examplePrices (BN 1) (BN 0)) ! 0 = exampleAccount 10 1 99 \<and>
   fst (computeClosePosition exampleDecode 2000000 2000000 exampleAssets ''id''
          [exampleAccount 10 1 99] 0 0 examplePrices (BN 1) (BN 0)) ! 0 = exampleAccount 10 1 99 \<and>
   fst (computeWithdrawCollateral exampleDecode 2000000 exampleAssets ''id''
          [exampleAccount 10 1 99] 0 examplePrices (BN 1)) ! 0 = exampleAccount 10 1 99 \<and>
   fst (computeWithdrawProfit exampleDecode 2000000 2000000 exampleAssets ''id''
          [exampleAccount 10 1 99] 0 0 examplePrices (BN 1)) ! 0 = exampleAccount 10 1 99"
proof -
  have "0 < length [exampleAccount 10 1 99]"
    by simp
  from simulations_keep_the_callers_account [OF this] show ?thesis
    by simp
qed

section \<open>The liquidity fee\<close>

text \<open>
  Claim C7. \<^verbatim>\<open>computeLiquidityFeeRate\<close>, when it does not fail for a removal beyond the
  current value, with \<open>oldDiff\<close> and \<open>newDiff\<close> the distances of the current and the new
  value to the target: for a positive target, when \<open>newDiff < oldDiff\<close> it returns the
  maximum of 0 and the base rate minus the rebate, the rebate being
  \<open>dynamicFeeRate * oldDiff / target\<close> rounded down to 5 decimal places; when
  \<open>newDiff \<ge> oldDiff\<close> it returns the base rate plus the surcharge from the minimum of
  \<open>(oldDiff + newDiff) / 2\<close> and the target, rounded in the same way; for the target 0 it
  returns the base rate. With the base rate 0.0002, the dynamic rate 0.01, the current
  value 100 and the target 100, adding 10 has the fee 0.0007.
\<close>

theorem computeLiquidityFeeRate_branches:
  fixes poolConfig currentAssetValue targetAssetValue isAdd deltaValue
  defines "newAssetValue \<equiv>
             (if isAdd then bn_plus currentAssetValue deltaValue
              else bn_minus currentAssetValue deltaValue)"
  defines "oldDiff \<equiv> bn_abs (bn_minus currentAssetValue targetAssetValue)"
  defines "newDiff \<equiv> bn_abs (bn_minus newAssetValue targetAssetValue)"
  defines "fee \<equiv>
             computeLiquidityFeeRate poolConfig currentAssetValue targetAssetValue isAdd
               deltaValue"
  assumes ok: "isAdd \<or> \<not> bn_lt currentAssetValue deltaValue"
  shows "(bn_gt targetAssetValue bn_0 \<and> bn_lt newDiff oldDiff \<longrightarrow>
            fee = Inr (bn_maximum bn_0
                    (bn_minus (liquidityBaseFeeRate poolConfig)
                       (bn_dp_round_down 5
                          (bn_div (bn_times (liquidityDynamicFeeRate poolConfig) oldDiff)
                             targetAssetValue))))) \<and>
         (bn_gt targetAssetValue bn_0 \<and> bn_gte newDiff oldDiff \<longrightarrow>
            fee = Inr (bn_plus (liquidityBaseFeeRate poolConfig)
                    (bn_dp_round_down 5
                       (bn_div
                          (bn_times (liquidityDynamicFeeRate poolConfig)
                             (bn_minimum (bn_div (bn_plus oldDiff newDiff) (BN 2))
                                targetAssetValue))
                          targetAssetValue)))) \<and>
         (bn_eq targetAssetValue bn_0 \<longrightarrow> fee = Inr (liquidityBaseFeeRate poolConfig)) \<and>
         computeLiquidityFeeRate
           \<lparr>liquidityBaseFeeRate = BN (2 / 10000), liquidityDynamicFeeRate = BN (1 / 100)\<rparr>
           (BN 100) (BN 100) True (BN 10) = Inr (BN (7 / 10000))"
proof -
  have example:
    "computeLiquidityFeeRate
       \<lparr>liquidityBaseFeeRate = BN (2 / 10000), liquidityDynamicFeeRate = BN (1 / 100)\<rparr>
       (BN 100) (BN 100) True (BN 10) = Inr (BN (7 / 10000))"
    by code_simp
  show ?thesis
    using ok example
    unfolding fee_def newDiff_def oldDiff_def newAssetValue_def computeLiquidityFeeRate_def
      Let_def
    by (auto dest: bn_gte_not_lt bn_gt_0_not_eq)
qed

text \<open>A pool at 90 of a target of 100 that receives 5 moves towards its target: the
  rebate is \<open>0.01 * 10 / 100 = 0.001\<close>, and of a base rate of 0.002 there remains
  0.001. A pool at 100 of 100 that loses 10 moves away: the surcharge is
  \<open>0.01 * 5 / 100\<close>. With the target 0 the fee is the base rate.\<close>

theorem computeLiquidityFeeRate_branches_witness:
  "computeLiquidityFeeRate
     \<lparr>liquidityBaseFeeRate = BN (2 / 1000), liquidityDynamicFeeRate = BN (1 / 100)\<rparr>
     (BN 90) (BN 100) True (BN 5) = Inr (BN (1 / 1000)) \<and>
   computeLiquidityFeeRate
     \<lparr>liquidityBaseFeeRate = BN (2 / 1000), liquidityDynamicFeeRate = BN (1 / 100)\<rparr>
     (BN 100) (BN 100) False (BN 10) = Inr (BN (25 / 10000)) \<and>
   computeLiquidityFeeRate
     \<lparr>liquidityBaseFeeRate = BN (2 / 1000), liquidityDynamicFeeRate = BN (1 / 100)\<rparr>
     (BN 100) (BN 0) True (BN 5) = Inr (BN (2 / 1000))"
proof -
  let ?pool = "\<lparr>liquidityBaseFeeRate = BN (2 / 1000), liquidityDynamicFeeRate = BN (1 / 100)\<rparr>"
  have better: "bn_gt (BN 100) bn_0 \<and>
      bn_lt (bn_abs (bn_minus (if True then bn_plus (BN 90) (BN 5) else bn_minus (BN 90) (BN 5))
                       (BN 100)))
        (bn_abs (bn_minus (BN 90) (BN 100)))"
    by (simp add: bn_defs)
  have rebate: "bn_maximum bn_0
      (bn_minus (liquidityBaseFeeRate ?pool)
         (bn_dp_round_down 5
            (bn_div (bn_times (liquidityDynamicFeeRate ?pool)
                       (bn_abs (bn_minus (BN 90) (BN 100))))
               (BN 100)))) = BN (1 / 1000)"
    by code_simp
  have worse: "bn_gt (BN 100) bn_0 \<and>
      bn_gte (bn_abs (bn_minus (if False then bn_plus (BN 100) (BN 10)
                                else bn_minus (BN 100) (BN 10)) (BN 100)))
        (bn_abs (bn_minus (BN 100) (BN 100)))"
    by (simp add: bn_defs)
  have surcharge: "bn_plus (liquidityBaseFeeRate ?pool)
      (bn_dp_round_down 5
         (bn_div
            (bn_times (liquidityDynamicFeeRate ?pool)
               (bn_minimum
                  (bn_div
                     (bn_plus (bn_abs (bn_minus (BN 100) (BN 100)))
                        (bn_abs (bn_minus (if False then bn_plus (BN 100) (BN 10)
                                           else bn_minus (BN 100) (BN 10)) (BN 100))))
                     (BN 2))
                  (BN 100)))
            (BN 100))) = BN (25 / 10000)"
    by code_simp
  have "True \<or> \<not> bn_lt (BN 90) (BN 5)"
    by simp
  from computeLiquidityFeeRate_branches [OF this, of "BN 100" ?pool] better rebate
  have one: "computeLiquidityFeeRate ?pool (BN 90) (BN 100) True (BN 5) = Inr (BN (1 / 1000))"
    by presburger
  have "False \<or> \<not> bn_lt (BN 100) (BN 10)"
    by simp
  from computeLiquidityFeeRate_branches [OF this, of "BN 100" ?pool] worse surcharge
  have two: "computeLiquidityFeeRate ?pool (BN 100) (BN 100) False (BN 10) =
      Inr (BN (25 / 10000))"
    by presburger
  have "True \<or> \<not> bn_lt (BN 100) (BN 5)"
    by simp
  from computeLiquidityFeeRate_branches [OF this, of "BN 0" ?pool]
  have three: "computeLiquidityFeeRate ?pool (BN 100) (BN 0) True (BN 5) = Inr (BN (2 / 1000))"
    by (simp add: bn_eq_def)
  from one two three show ?thesis
    by blast
qed

section \<open>The invariant of a flat account\<close>

lemma computeRealizeLoss_fields:
  "computeRealizeLoss h sa cp loss b = Inr h' \<Longrightarrow> sa < length h \<Longrightarrow>
   length h' = length h \<and> size_sa (h' ! sa) = size_sa (h ! sa) \<and>
   entryPrice (h' ! sa) = entryPrice (h ! sa) \<and> entryFunding (h' ! sa) = entryFunding (h ! sa) \<and>
   lastIncreasedTime (h' ! sa) = lastIncreasedTime (h ! sa)"
  by (auto simp: computeRealizeLoss_def Let_def split: if_splits)

lemma realizePnl_fields:
  "realizePnl h sa cp pnl fee a pp = Inr (h', x) \<Longrightarrow> sa < length h \<Longrightarrow>
   length h' = length h \<and> size_sa (h' ! sa) = size_sa (h ! sa) \<and>
   entryPrice (h' ! sa) = entryPrice (h ! sa) \<and> entryFunding (h' ! sa) = entryFunding (h ! sa) \<and>
   lastIncreasedTime (h' ! sa) = lastIncreasedTime (h ! sa)"
  by (auto simp: realizePnl_def Let_def split: if_splits prod.splits sum.splits
      dest: computeRealizeLoss_fields)

lemma settleFeeFromCollateral_fields:
  "settleFeeFromCollateral h sa cp gas fee paid = (h', x) \<Longrightarrow> sa < length h \<Longrightarrow>
   size_sa (h' ! sa) = size_sa (h ! sa) \<and> entryPrice (h' ! sa) = entryPrice (h ! sa) \<and>
   entryFunding (h' ! sa) = entryFunding (h ! sa) \<and>
   lastIncreasedTime (h' ! sa) = lastIncreasedTime (h ! sa)"
  by (auto simp: settleFeeFromCollateral_def Let_def split: if_splits prod.splits)

lemma reducePosition_length [simp]: "length (reducePosition h sa amount) = length h"
  by (simp add: reducePosition_def Let_def)

lemma reducePosition_flat:
  "sa < length h \<Longrightarrow> flatInvariant (reducePosition h sa amount ! sa)"
  by (simp add: reducePosition_def Let_def flatInvariant_def)

lemma reducePosition_all:
  "sa < length h \<Longrightarrow> bn_finite (size_sa (h ! sa)) \<Longrightarrow> bn_eq amount (size_sa (h ! sa)) \<Longrightarrow>
   reducePosition h sa amount ! sa =
     (h ! sa)\<lparr>size_sa := bn_0, entryPrice := bn_0, entryFunding := bn_0, lastIncreasedTime := 0\<rparr>"
  by (cases "size_sa (h ! sa)"; cases amount)
     (auto simp: reducePosition_def Let_def bn_eq_def bn_minus_def)

lemma flatInvariant_cong:
  "size_sa s' = size_sa s \<Longrightarrow> entryPrice s' = entryPrice s \<Longrightarrow>
   entryFunding s' = entryFunding s \<Longrightarrow> lastIncreasedTime s' = lastIncreasedTime s \<Longrightarrow>
   flatInvariant s' = flatInvariant s"
  by (simp add: flatInvariant_def)

lemma computeClosePosition_flat:
  assumes "computeClosePosition dec now1 now2 assets sid h0 r pid0 prices amount gas =
             (h', Inr res)"
  shows "flatInvariant (h' ! subAccount (afterTrade res))"
proof -
  have step: "flatInvariant (h6 ! length h0)"
    if "realizePnl (updateEntryFunding (h0 @ [s]) (length h0) asset isLong) (length h0) cp pnl
          fee pa pp = Inr (h3, x)"
      and "settleFeeFromCollateral (reducePosition h3 (length h0) amount) (length h0) cp gas
          fee paid = (h6, y)"
    for s asset isLong cp pnl fee pa pp h3 x paid h6 y
  proof -
    from that(1) have len: "length h0 < length h3"
      by (auto dest!: realizePnl_fields simp: updateEntryFunding_def)
    from settleFeeFromCollateral_fields [OF that(2)] len
    have "flatInvariant (h6 ! length h0) =
          flatInvariant (reducePosition h3 (length h0) amount ! length h0)"
      by (intro flatInvariant_cong) simp_all
    with len show ?thesis
      by (simp add: reducePosition_flat)
  qed
  show ?thesis
    using assms
    unfolding computeClosePosition_def cloneSubAccount_def Let_def
    by (auto split: prod.splits sum.splits if_splits dest!: computeSubAccount_ref
        intro: step)
qed

lemma computeClosePosition_all:
  assumes "computeClosePosition dec now1 now2 assets sid h0 r pid0 prices amount gas =
             (h', Inr res)"
    and "bn_eq amount (size_sa (h0 ! r))" and "bn_finite amount"
  shows "size_sa (h' ! subAccount (afterTrade res)) = bn_0 \<and>
         entryPrice (h' ! subAccount (afterTrade res)) = bn_0 \<and>
         entryFunding (h' ! subAccount (afterTrade res)) = bn_0 \<and>
         lastIncreasedTime (h' ! subAccount (afterTrade res)) = 0"
proof -
  have step: "size_sa (h6 ! length h0) = bn_0 \<and> entryPrice (h6 ! length h0) = bn_0 \<and>
      entryFunding (h6 ! length h0) = bn_0 \<and> lastIncreasedTime (h6 ! length h0) = 0"
    if "realizePnl (updateEntryFunding (h0 @ [h0 ! r]) (length h0) asset isLong) (length h0) cp
          pnl fee pa pp = Inr (h3, x)"
      and "settleFeeFromCollateral (reducePosition h3 (length h0) amount) (length h0) cp gas
          fee paid = (h6, y)"
    for asset isLong cp pnl fee pa pp h3 x paid h6 y
  proof -
    from realizePnl_fields [OF that(1)]
    have len: "length h0 < length h3" and size: "size_sa (h3 ! length h0) = size_sa (h0 ! r)"
      by (simp_all add: updateEntryFunding_def)
    from assms(2,3) size have "bn_finite (size_sa (h3 ! length h0))"
      "bn_eq amount (size_sa (h3 ! length h0))"
      by (auto simp: bn_eq_def)
    from reducePosition_all [OF len this] settleFeeFromCollateral_fields [OF that(2)] len
    show ?thesis
      by simp
  qed
  show ?thesis
    using assms(1)
    unfolding computeClosePosition_def cloneSubAccount_def Let_def
    by (auto split: prod.splits sum.splits if_splits dest!: computeSubAccount_ref
        dest: step)
qed

lemma computeOpenPosition_flat:
  assumes "computeOpenPosition dec now1 now2 now3 assets sid h0 r prices amount gas =
             (h', Inr res)"
    and "bn_gte (size_sa (h0 ! r)) bn_0"
  shows "flatInvariant (h' ! subAccount (afterTrade res))"
  using assms
  unfolding computeOpenPosition_def cloneSubAccount_def updateEntryFunding_def Let_def
    flatInvariant_def
  by (auto split: prod.splits sum.splits if_splits dest!: computeSubAccount_ref
      dest: bn_plus_positive_nonzero)

lemma computeWithdrawCollateral_flat:
  assumes "computeWithdrawCollateral dec now assets sid h0 r prices amount = (h', Inr res)"
    and "flatInvariant (h0 ! r)"
  shows "flatInvariant (h' ! subAccount (afterTrade res))"
  using assms
  unfolding computeWithdrawCollateral_def cloneSubAccount_def updateEntryFunding_def Let_def
    flatInvariant_def
  by (auto split: prod.splits sum.splits if_splits dest!: computeSubAccount_ref
      simp: bn_gt_def bn_eq_def)

lemma computeWithdrawProfit_flat:
  assumes "computeWithdrawProfit dec now1 now2 assets sid h0 r pid0 prices amount =
             (h', Inr res)"
  shows "flatInvariant (h' ! subAccount (afterTrade res))"
  using assms
  unfolding computeWithdrawProfit_def cloneSubAccount_def updateEntryFunding_def Let_def
    flatInvariant_def
  by (auto split: prod.splits sum.splits if_splits dest!: computeSubAccount_ref)

text \<open>
  Claim C4. The invariant ``a size of zero implies an entry price, an entry funding and a
  time of the last increase of zero'' holds of the account returned by every simulation
  function: by \<^verbatim>\<open>computeOpenPosition\<close> for an account whose size is not negative (the
  new size is positive then), by \<^verbatim>\<open>computeClosePosition\<close> and
  \<^verbatim>\<open>computeWithdrawProfit\<close> for every account, by \<^verbatim>\<open>computeWithdrawCollateral\<close> for
  an account that has the invariant. \<^verbatim>\<open>computeClosePosition\<close> of a finite amount equal
  to the size returns an account whose size, entry price, entry funding and time of the
  last increase are zero.
\<close>

theorem simulations_preserve_flatInvariant:
  "(computeOpenPosition dec now1 now2 now3 assets sid h0 r prices amount gas = (h1, Inr res1) \<and>
      bn_gte (size_sa (h0 ! r)) bn_0 \<longrightarrow>
      flatInvariant (h1 ! subAccount (afterTrade res1))) \<and>
   (computeClosePosition dec now1 now2 assets sid h0 r pid0 prices amount gas = (h2, Inr res2) \<longrightarrow>
      flatInvariant (h2 ! subAccount (afterTrade res2))) \<and>
   (computeWithdrawCollateral dec now1 assets sid h0 r prices amount = (h3, Inr res3) \<and>
      flatInvariant (h0 ! r) \<longrightarrow>
      flatInvariant (h3 ! subAccount (afterTrade res3))) \<and>
   (computeWithdrawProfit dec now1 now2 assets sid h0 r pid0 prices amount = (h4, Inr res4) \<longrightarrow>
      flatInvariant (h4 ! subAccount (afterTrade res4))) \<and>
   (computeClosePosition dec now1 now2 assets sid h0 r pid0 prices amount gas = (h2, Inr res2) \<and>
      bn_eq amount (size_sa (h0 ! r)) \<and> bn_finite amount \<longrightarrow>
      size_sa (h2 ! subAccount (afterTrade res2)) = bn_0 \<and>
      entryPrice (h2 ! subAccount (afterTrade res2)) = bn_0 \<and>
      entryFunding (h2 ! subAccount (afterTrade res2)) = bn_0 \<and>
      lastIncreasedTime (h2 ! subAccount (afterTrade res2)) = 0)"
proof (intro conjI impI; (elim conjE)?)
  assume "computeOpenPosition dec now1 now2 now3 assets sid h0 r prices amount gas =
            (h1, Inr res1)" "bn_gte (size_sa (h0 ! r)) bn_0"
  then show "flatInvariant (h1 ! subAccount (afterTrade res1))"
    by (rule computeOpenPosition_flat)
next
  assume "computeClosePosition dec now1 now2 assets sid h0 r pid0 prices amount gas =
            (h2, Inr res2)"
  then show "flatInvariant (h2 ! subAccount (afterTrade res2))"
    by (rule computeClosePosition_flat)
next
  assume "computeWithdrawCollateral dec now1 assets sid h0 r prices amount = (h3, Inr res3)"
    "flatInvariant (h0 ! r)"
  then show "flatInvariant (h3 ! subAccount (afterTrade res3))"
    by (rule computeWithdrawCollateral_flat)
next
  assume "computeWithdrawProfit dec now1 now2 assets sid h0 r pid0 prices amount =
            (h4, Inr res4)"
  then show "flatInvariant (h4 ! subAccount (afterTrade res4))"
    by (rule computeWithdrawProfit_flat)
next
  assume "computeClosePosition dec now1 now2 assets sid h0 r pid0 prices amount gas =
            (h2, Inr res2)" "bn_eq amount (size_sa (h0 ! r))" "bn_finite amount"
  from computeClosePosition_all [OF this]
  show "size_sa (h2 ! subAccount (afterTrade res2)) = bn_0"
    "entryPrice (h2 ! subAccount (afterTrade res2)) = bn_0"
    "entryFunding (h2 ! subAccount (afterTrade res2)) = bn_0"
    "lastIncreasedTime (h2 ! subAccount (afterTrade res2)) = 0"
    by simp_all
qed

text \<open>With valid arguments the other simulations throw nothing either, a close unless its
  loss is more than the collateral.\<close>

lemma computeOpenPosition_no_error:
  assumes "dec sid = (c, a, isLong)"
    and "computeTradingPrice dec assets sid prices True = Inr (ap, cp)"
    and "\<not> bn_lte amount bn_0" and "\<not> bn_lt gas bn_0"
    and "\<not> (isStable (assets ! a) \<or> \<not> isTradable (assets ! a) \<or> \<not> isOpenable (assets ! a) \<or>
            \<not> isEnabled (assets ! a) \<or> \<not> isEnabled (assets ! c) \<or>
            (\<not> isLong \<and> \<not> isShortable (assets ! a)))"
  shows "snd (computeOpenPosition dec now1 now2 now3 assets sid h0 r prices amount gas) \<noteq> Inl e"
proof -
  from computeTradingPrice_ids [OF assms(2,1)] have a: "a < length assets"
    by simp
  show ?thesis
    using assms computeSubAccount_no_error [of dec sid c a isLong assets, OF assms(1) a]
    unfolding computeOpenPosition_def cloneSubAccount_def updateEntryFunding_def Let_def
    by (auto split: prod.splits sum.splits if_splits)
qed

lemma computeWithdrawCollateral_no_error:
  assumes "dec sid = (c, a, isLong)"
    and "computeTradingPrice dec assets sid prices False = Inr (ap, cp)"
    and "\<not> bn_lte amount bn_0"
    and "isEnabled (assets ! a)" "isEnabled (assets ! c)"
  shows "snd (computeWithdrawCollateral dec now assets sid h0 r prices amount) \<noteq> Inl e"
proof -
  from computeTradingPrice_ids [OF assms(2,1)] have a: "a < length assets"
    by simp
  show ?thesis
    using assms computeSubAccount_no_error [of dec sid c a isLong assets, OF assms(1) a]
    unfolding computeWithdrawCollateral_def cloneSubAccount_def updateEntryFunding_def Let_def
    by (auto split: prod.splits sum.splits if_splits)
qed

lemma realizePnl_no_error:
  assumes "\<not> (bn_lt pnl bn_0 \<and> bn_lt (collateral (h ! sa)) (bn_div (bn_negated pnl) cp))"
  shows "realizePnl h sa cp pnl fee pa pp \<noteq> Inl e"
  using assms
  by (auto simp: realizePnl_def computeRealizeLoss_def Let_def
      split: prod.splits sum.splits if_splits)

lemma computeClosePosition_no_error:
  assumes "dec sid = (c, a, isLong)"
    and "computeTradingPrice dec assets sid prices False = Inr (ap, cp)"
    and "resolveProfitAsset assets a isLong ap pid0 prices = Inr (pid, pp)"
    and "\<not> (bn_lte amount bn_0 \<or> bn_gt amount (size_sa (h0 ! r)))" and "\<not> bn_lt gas bn_0"
    and "\<not> (isStable (assets ! a) \<or> \<not> isTradable (assets ! a) \<or> \<not> isEnabled (assets ! a) \<or>
            \<not> isEnabled (assets ! c) \<or> (\<not> isLong \<and> \<not> isShortable (assets ! a)))"
    and "\<not> (bn_lt (snd (computePositionPnlUsd now1 (assets ! a) (h0 ! r) isLong amount ap)) bn_0 \<and>
            bn_lt (collateral (h0 ! r))
              (bn_div (bn_negated (snd (computePositionPnlUsd now1 (assets ! a) (h0 ! r) isLong
                                          amount ap))) cp))"
  shows "snd (computeClosePosition dec now1 now2 assets sid h0 r pid0 prices amount gas) \<noteq> Inl e"
proof -
  from computeTradingPrice_ids [OF assms(2,1)] have a: "a < length assets"
    by simp
  have pnl: "realizePnl (updateEntryFunding (h0 @ [h0 ! r]) (length h0) (assets ! a) isLong)
      (length h0) cp (snd (computePositionPnlUsd now1 (assets ! a) (h0 ! r) isLong amount ap))
      fee pa pp \<noteq> Inl e" for fee pa pp e
    using assms(7) by (intro realizePnl_no_error) (auto simp: updateEntryFunding_def)
  show ?thesis
    using assms(1-6) pnl computeSubAccount_no_error [of dec sid c a isLong assets, OF assms(1) a]
    unfolding computeClosePosition_def cloneSubAccount_def Let_def
    by (auto split: prod.splits sum.splits if_splits simp: updateEntryFunding_def)
qed

text \<open>In the example market: a flat account opens a position of 1; a position of 1
  entered at 150 is closed whole, at a loss of 51 that its collateral of 60 covers; a
  flat account withdraws collateral; a position of 2 entered at 89 withdraws profit.\<close>

theorem simulations_preserve_flatInvariant_witness:
  "(\<exists>h res. computeOpenPosition exampleDecode 2000000 2000000 2000000 exampleAssets ''id''
               [exampleAccount 100 0 0] 0 examplePrices (BN 1) (BN 0) = (h, Inr res) \<and>
             flatInvariant (h ! subAccount (afterTrade res))) \<and>
   (\<exists>h res. computeClosePosition exampleDecode 2000000 2000000 exampleAssets ''id''
               [exampleAccount 60 1 150] 0 0 examplePrices (BN 1) (BN 2) = (h, Inr res) \<and>
             flatInvariant (h ! subAccount (afterTrade res)) \<and>
             size_sa (h ! subAccount (afterTrade res)) = bn_0 \<and>
             entryPrice (h ! subAccount (afterTrade res)) = bn_0 \<and>
             entryFunding (h ! subAccount (afterTrade res)) = bn_0 \<and>
             lastIncreasedTime (h ! subAccount (afterTrade res)) = 0) \<and>
   (\<exists>h res. computeWithdrawCollateral exampleDecode 2000000 exampleAssets ''id''
               [(exampleAccount 10 0 0)\<lparr>lastIncreasedTime := 0\<rparr>] 0 examplePrices (BN 1) =
               (h, Inr res) \<and>
             flatInvariant (h ! subAccount (afterTrade res))) \<and>
   (\<exists>h res. computeWithdrawProfit exampleDecode 2000000 2000000 exampleAssets ''id''
               [exampleAccount 10 2 89] 0 0 examplePrices (BN (1 / 10)) = (h, Inr res) \<and>
             flatInvariant (h ! subAccount (afterTrade res)))"
proof (intro conjI)
  have "\<exists>h res. computeOpenPosition exampleDecode 2000000 2000000 2000000 exampleAssets ''id''
               [exampleAccount 100 0 0] 0 examplePrices (BN 1) (BN 0) = (h, Inr res)"
    by (rule result_exists,
        rule computeOpenPosition_no_error [OF example_decode example_open_price])
       (simp_all add: example_defs bn_defs)
  then obtain h res
    where run: "computeOpenPosition exampleDecode 2000000 2000000 2000000 exampleAssets ''id''
               [exampleAccount 100 0 0] 0 examplePrices (BN 1) (BN 0) = (h, Inr res)"
    by blast
  have "bn_gte (size_sa ([exampleAccount 100 0 0] ! 0)) bn_0"
    by (simp add: example_defs bn_defs)
  with run simulations_preserve_flatInvariant [where dec = exampleDecode
      and ?now1.0 = 2000000 and ?now2.0 = 2000000 and ?now3.0 = 2000000
      and assets = exampleAssets and sid = "''id''" and ?h0.0 = "[exampleAccount 100 0 0]"
      and r = 0 and prices = examplePrices and amount = "BN 1" and gas = "BN 0"
      and ?h1.0 = h and ?res1.0 = res]
  have "flatInvariant (h ! subAccount (afterTrade res))"
    by simp
  with run
  show "\<exists>h res. computeOpenPosition exampleDecode 2000000 2000000 2000000 exampleAssets ''id''
               [exampleAccount 100 0 0] 0 examplePrices (BN 1) (BN 0) = (h, Inr res) \<and>
             flatInvariant (h ! subAccount (afterTrade res))"
    by blast
next
  have whole: "round_half_up DECIMAL_PLACES 51 = 51"
    by code_simp
  have "\<exists>h res. computeClosePosition exampleDecode 2000000 2000000 exampleAssets ''id''
               [exampleAccount 60 1 150] 0 0 examplePrices (BN 1) (BN 2) = (h, Inr res)"
    by (rule result_exists,
        rule computeClosePosition_no_error [OF example_decode example_close_price
          example_profit_asset _ _ example_tradable])
       (simp_all add: example_defs bn_defs valuation_defs whole)
  then obtain h res
    where run: "computeClosePosition exampleDecode 2000000 2000000 exampleAssets ''id''
               [exampleAccount 60 1 150] 0 0 examplePrices (BN 1) (BN 2) = (h, Inr res)"
    by blast
  have "bn_eq (BN 1) (size_sa ([exampleAccount 60 1 150] ! 0)) \<and> bn_finite (BN 1)"
    by (simp add: example_defs bn_defs)
  with run simulations_preserve_flatInvariant [where dec = exampleDecode
      and ?now1.0 = 2000000 and ?now2.0 = 2000000
      and assets = exampleAssets and sid = "''id''" and ?h0.0 = "[exampleAccount 60 1 150]"
      and r = 0 and ?pid0.0 = 0 and prices = examplePrices and amount = "BN 1"
      and gas = "BN 2" and ?h2.0 = h and ?res2.0 = res]
  have "flatInvariant (h ! subAccount (afterTrade res)) \<and>
        size_sa (h ! subAccount (afterTrade res)) = bn_0 \<and>
        entryPrice (h ! subAccount (afterTrade res)) = bn_0 \<and>
        entryFunding (h ! subAccount (afterTrade res)) = bn_0 \<and>
        lastIncreasedTime (h ! subAccount (afterTrade res)) = 0"
    by simp
  with run
  show "\<exists>h res. computeClosePosition exampleDecode 2000000 2000000 exampleAssets ''id''
               [exampleAccount 60 1 150] 0 0 examplePrices (BN 1) (BN 2) = (h, Inr res) \<and>
             flatInvariant (h ! subAccount (afterTrade res)) \<and>
             size_sa (h ! subAccount (afterTrade res)) = bn_0 \<and>
             entryPrice (h ! subAccount (afterTrade res)) = bn_0 \<and>
             entryFunding (h ! subAccount (afterTrade res)) = bn_0 \<and>
             lastIncreasedTime (h ! subAccount (afterTrade res)) = 0"
    by blast
next
  have "\<exists>h res. computeWithdrawCollateral exampleDecode 2000000 exampleAssets ''id''
               [(exampleAccount 10 0 0)\<lparr>lastIncreasedTime := 0\<rparr>] 0 examplePrices (BN 1) =
               (h, Inr res)"
    by (rule result_exists,
        rule computeWithdrawCollateral_no_error [OF example_decode example_close_price])
       (simp_all add: example_defs bn_defs)
  then obtain h res
    where run: "computeWithdrawCollateral exampleDecode 2000000 exampleAssets ''id''
               [(exampleAccount 10 0 0)\<lparr>lastIncreasedTime := 0\<rparr>] 0 examplePrices (BN 1) =
               (h, Inr res)"
    by blast
  have "flatInvariant ([(exampleAccount 10 0 0)\<lparr>lastIncreasedTime := 0\<rparr>] ! 0)"
    by (simp add: flatInvariant_def example_defs)
  with run simulations_preserve_flatInvariant [where dec = exampleDecode
      and ?now1.0 = 2000000 and assets = exampleAssets and sid = "''id''"
      and ?h0.0 = "[(exampleAccount 10 0 0)\<lparr>lastIncreasedTime := 0\<rparr>]"
      and r = 0 and prices = examplePrices and amount = "BN 1"
      and ?h3.0 = h and ?res3.0 = res]
  have "flatInvariant (h ! subAccount (afterTrade res))"
    by simp
  with run
  show "\<exists>h res. computeWithdrawCollateral exampleDecode 2000000 exampleAssets ''id''
               [(exampleAccount 10 0 0)\<lparr>lastIncreasedTime := 0\<rparr>] 0 examplePrices (BN 1) =
               (h, Inr res) \<and>
             flatInvariant (h ! subAccount (afterTrade res))"
    by blast
next
  from example_withdrawProfit_returns obtain h res
    where run: "computeWithdrawProfit exampleDecode 2000000 2000000 exampleAssets ''id''
               [exampleAccount 10 2 89] 0 0 examplePrices (BN (1 / 10)) = (h, Inr res)"
    by blast
  with simulations_preserve_flatInvariant [where dec = exampleDecode
      and ?now1.0 = 2000000 and ?now2.0 = 2000000
      and assets = exampleAssets and sid = "''id''" and ?h0.0 = "[exampleAccount 10 2 89]"
      and r = 0 and ?pid0.0 = 0 and prices = examplePrices and amount = "BN (1 / 10)"
      and ?h4.0 = h and ?res4.0 = res]
  have "flatInvariant (h ! subAccount (afterTrade res))"
    by simp
  with run
  show "\<exists>h res. computeWithdrawProfit exampleDecode 2000000 2000000 exampleAssets ''id''
               [exampleAccount 10 2 89] 0 0 examplePrices (BN (1 / 10)) = (h, Inr res) \<and>
             flatInvariant (h ! subAccount (afterTrade res))"
    by blast
qed

section \<open>Closing at a loss\<close>

lemma bn_lt_asym: "bn_lt x y \<Longrightarrow> \<not> bn_lt y x"
  by (cases x; cases y) auto

lemma bn_negated_nonzero: "bn_lt x bn_0 \<Longrightarrow> \<not> bn_eq (bn_negated x) bn_0"
  by (cases x) (auto simp: bn_eq_def)

text \<open>The loss of a close is realized by \<^verbatim>\<open>computeRealizeLoss\<close> with
  \<^verbatim>\<open>isThrowBankrupt\<close> true.\<close>

lemma realizePnl_loss:
  assumes "bn_lt pnl bn_0"
  shows "realizePnl h sa cp pnl fee pa pp =
           (if bn_lt (collateral (h ! sa)) (bn_div (bn_negated pnl) cp) then
              Inl (Error ''bankrupt'')
            else Inr (h[sa := (h ! sa)\<lparr>collateral :=
                        bn_minus (collateral (h ! sa)) (bn_div (bn_negated pnl) cp)\<rparr>],
                      bn_0, bn_0, bn_0))"
  using assms bn_lt_asym [OF assms] bn_negated_nonzero [OF assms]
  by (simp add: realizePnl_def computeRealizeLoss_def bn_gt_def)

lemma updateEntryFunding_nth:
  "updateEntryFunding (h @ [s]) (length h) asset isLong ! length h =
     s\<lparr>entryFunding :=
         (if isLong then longCumulativeFundingRate asset else shortCumulativeFunding asset)\<rparr>"
  by (simp add: updateEntryFunding_def)

text \<open>What \<^verbatim>\<open>computeClosePosition\<close> does once its arguments are valid: it throws what
  the realization of the pnl throws, or it returns.\<close>

lemma computeClosePosition_throws:
  assumes dec: "dec sid = (c, a, isLong)"
    and tp: "computeTradingPrice dec assets sid prices False = Inr (ap, cp)"
    and pa: "resolveProfitAsset assets a isLong ap pid0 prices = Inr (pid, pp)"
    and amt: "\<not> (bn_lte amount bn_0 \<or> bn_gt amount (size_sa (h0 ! r)))"
    and gas: "\<not> bn_lt gas bn_0"
    and tradable:
      "\<not> (isStable (assets ! a) \<or> \<not> isTradable (assets ! a) \<or> \<not> isEnabled (assets ! a) \<or>
          \<not> isEnabled (assets ! c) \<or> (\<not> isLong \<and> \<not> isShortable (assets ! a)))"
    and pnl: "realizePnl (updateEntryFunding (h0 @ [h0 ! r]) (length h0) (assets ! a) isLong)
                (length h0) cp
                (snd (computePositionPnlUsd now1 (assets ! a) (h0 ! r) isLong amount ap))
                (computeFeeUsd (h0 ! r) (assets ! a) isLong amount ap) (assets ! pid) pp = Inl e"
  shows "computeClosePosition dec now1 now2 assets sid h0 r pid0 prices amount gas =
           (updateEntryFunding (h0 @ [h0 ! r]) (length h0) (assets ! a) isLong, Inl e)"
  using dec tp pa amt gas tradable pnl
  by (auto simp add: computeClosePosition_def cloneSubAccount_def Let_def case_prod_beta
      updateEntryFunding_nth)

lemma computeClosePosition_returns:
  assumes dec: "dec sid = (c, a, isLong)"
    and tp: "computeTradingPrice dec assets sid prices False = Inr (ap, cp)"
    and pa: "resolveProfitAsset assets a isLong ap pid0 prices = Inr (pid, pp)"
    and amt: "\<not> (bn_lte amount bn_0 \<or> bn_gt amount (size_sa (h0 ! r)))"
    and gas: "\<not> bn_lt gas bn_0"
    and tradable:
      "\<not> (isStable (assets ! a) \<or> \<not> isTradable (assets ! a) \<or> \<not> isEnabled (assets ! a) \<or>
          \<not> isEnabled (assets ! c) \<or> (\<not> isLong \<and> \<not> isShortable (assets ! a)))"
    and pnl: "realizePnl (updateEntryFunding (h0 @ [h0 ! r]) (length h0) (assets ! a) isLong)
                (length h0) cp
                (snd (computePositionPnlUsd now1 (assets ! a) (h0 ! r) isLong amount ap))
                (computeFeeUsd (h0 ! r) (assets ! a) isLong amount ap) (assets ! pid) pp =
              Inr (h3, paid, transferred, debt)"
  shows "\<exists>d. computeClosePosition dec now1 now2 assets sid h0 r pid0 prices amount gas =
           (fst (settleFeeFromCollateral (reducePosition h3 (length h0) amount) (length h0)
                   cp gas (computeFeeUsd (h0 ! r) (assets ! a) isLong amount ap) paid),
            Inr \<lparr>afterTrade = d, isTradeSafe = isMarginSafe (computed d),
                 feeUsd =
                   snd (settleFeeFromCollateral (reducePosition h3 (length h0) amount)
                          (length h0) cp gas
                          (computeFeeUsd (h0 ! r) (assets ! a) isLong amount ap) paid),
                 profitAssetTransferred = transferred,
                 bitoroTokenTransferred = debt\<rparr>) \<and>
           subAccount d = length h0"
proof -
  from computeTradingPrice_ids [OF tp dec] have a: "a < length assets"
    by simp
  from computeSubAccount_Inr [of dec sid c a isLong assets, OF dec a]
  obtain d where d: "computeSubAccount dec now2 assets sid
        (fst (settleFeeFromCollateral (reducePosition h3 (length h0) amount) (length h0)
                cp gas (computeFeeUsd (h0 ! r) (assets ! a) isLong amount ap) paid))
        (length h0) cp ap = Inr d"
    by blast
  have "computeClosePosition dec now1 now2 assets sid h0 r pid0 prices amount gas =
           (fst (settleFeeFromCollateral (reducePosition h3 (length h0) amount) (length h0)
                   cp gas (computeFeeUsd (h0 ! r) (assets ! a) isLong amount ap) paid),
            Inr \<lparr>afterTrade = d, isTradeSafe = isMarginSafe (computed d),
                 feeUsd =
                   snd (settleFeeFromCollateral (reducePosition h3 (length h0) amount)
                          (length h0) cp gas
                          (computeFeeUsd (h0 ! r) (assets ! a) isLong amount ap) paid),
                 profitAssetTransferred = transferred,
                 bitoroTokenTransferred = debt\<rparr>)"
    using dec tp pa amt gas tradable pnl d
    by (auto simp add: computeClosePosition_def cloneSubAccount_def Let_def case_prod_beta
        updateEntryFunding_nth)
  with computeSubAccount_ref [OF d] show ?thesis
    by blast
qed

lemma computeClosePosition_bankrupt:
  assumes dec: "dec sid = (c, a, isLong)"
    and tp: "computeTradingPrice dec assets sid prices False = Inr (ap, cp)"
    and pa: "resolveProfitAsset assets a isLong ap pid0 prices = Inr (pid, pp)"
    and amt: "\<not> (bn_lte amount bn_0 \<or> bn_gt amount (size_sa (h0 ! r)))"
    and gas: "\<not> bn_lt gas bn_0"
    and tradable:
      "\<not> (isStable (assets ! a) \<or> \<not> isTradable (assets ! a) \<or> \<not> isEnabled (assets ! a) \<or>
          \<not> isEnabled (assets ! c) \<or> (\<not> isLong \<and> \<not> isShortable (assets ! a)))"
    and pnl: "pnl = snd (computePositionPnlUsd now1 (assets ! a) (h0 ! r) isLong amount ap)"
    and loss: "bn_lt pnl bn_0"
    and less: "bn_lt (collateral (h0 ! r)) (bn_div (bn_negated pnl) cp)"
  shows "snd (computeClosePosition dec now1 now2 assets sid h0 r pid0 prices amount gas) =
           Inl (Error ''bankrupt'')"
proof -
  have "realizePnl (updateEntryFunding (h0 @ [h0 ! r]) (length h0) (assets ! a) isLong)
          (length h0) cp
          (snd (computePositionPnlUsd now1 (assets ! a) (h0 ! r) isLong amount ap))
          (computeFeeUsd (h0 ! r) (assets ! a) isLong amount ap) (assets ! pid) pp =
        Inl (Error ''bankrupt'')"
    using loss less unfolding pnl
    by (simp add: realizePnl_loss updateEntryFunding_nth)
  from computeClosePosition_throws [OF dec tp pa amt gas tradable this] show ?thesis
    by simp
qed

lemma computeClosePosition_loss_deducted:
  assumes dec: "dec sid = (c, a, isLong)"
    and tp: "computeTradingPrice dec assets sid prices False = Inr (ap, cp)"
    and pa: "resolveProfitAsset assets a isLong ap pid0 prices = Inr (pid, pp)"
    and amt: "\<not> (bn_lte amount bn_0 \<or> bn_gt amount (size_sa (h0 ! r)))"
    and gas: "\<not> bn_lt gas bn_0"
    and tradable:
      "\<not> (isStable (assets ! a) \<or> \<not> isTradable (assets ! a) \<or> \<not> isEnabled (assets ! a) \<or>
          \<not> isEnabled (assets ! c) \<or> (\<not> isLong \<and> \<not> isShortable (assets ! a)))"
    and pnl: "pnl = snd (computePositionPnlUsd now1 (assets ! a) (h0 ! r) isLong amount ap)"
    and loss: "bn_lt pnl bn_0"
    and enough: "\<not> bn_lt (collateral (h0 ! r)) (bn_div (bn_negated pnl) cp)"
  shows "\<exists>h3 res.
           collateral (h3 ! length h0) =
             bn_minus (collateral (h0 ! r)) (bn_div (bn_negated pnl) cp) \<and>
           computeClosePosition dec now1 now2 assets sid h0 r pid0 prices amount gas =
             (fst (settleFeeFromCollateral (reducePosition h3 (length h0) amount) (length h0)
                     cp gas (computeFeeUsd (h0 ! r) (assets ! a) isLong amount ap) bn_0),
              Inr res)"
proof -
  let ?h2 = "updateEntryFunding (h0 @ [h0 ! r]) (length h0) (assets ! a) isLong"
  let ?h3 = "?h2[length h0 := (?h2 ! length h0)\<lparr>collateral :=
               bn_minus (collateral (h0 ! r)) (bn_div (bn_negated pnl) cp)\<rparr>]"
  have len: "length h0 < length ?h2"
    by (simp add: updateEntryFunding_def)
  have "realizePnl ?h2 (length h0) cp
          (snd (computePositionPnlUsd now1 (assets ! a) (h0 ! r) isLong amount ap))
          (computeFeeUsd (h0 ! r) (assets ! a) isLong amount ap) (assets ! pid) pp =
        Inr (?h3, bn_0, bn_0, bn_0)"
    using loss enough unfolding pnl
    by (simp add: realizePnl_loss updateEntryFunding_nth)
  from computeClosePosition_returns [OF dec tp pa amt gas tradable this]
  obtain res where "computeClosePosition dec now1 now2 assets sid h0 r pid0 prices amount gas =
             (fst (settleFeeFromCollateral (reducePosition ?h3 (length h0) amount) (length h0)
                     cp gas (computeFeeUsd (h0 ! r) (assets ! a) isLong amount ap) bn_0),
              Inr res)"
    by blast
  moreover have "collateral (?h3 ! length h0) =
      bn_minus (collateral (h0 ! r)) (bn_div (bn_negated pnl) cp)"
    using len by simp
  ultimately show ?thesis
    by blast
qed

text \<open>
  Claim C1, as the code has it. In \<^verbatim>\<open>computeClosePosition\<close>, when the realized pnl of
  the closed amount is negative, the loss is realized with the bankruptcy check on
  (\<^verbatim>\<open>computeRealizeLoss\<close> is called with \<^verbatim>\<open>isThrowBankrupt\<close> true): when the collateral
  is less than the loss in units of the collateral, the call throws ``bankrupt''; otherwise
  the whole loss, not clamped, is taken from the collateral, and the call goes on to the
  settlement of the fee and returns.
\<close>

theorem computeClosePosition_loss_checks_bankruptcy:
  assumes "dec sid = (c, a, isLong)"
    and "computeTradingPrice dec assets sid prices False = Inr (ap, cp)"
    and "resolveProfitAsset assets a isLong ap pid0 prices = Inr (pid, pp)"
    and "\<not> (bn_lte amount bn_0 \<or> bn_gt amount (size_sa (h0 ! r)))"
    and "\<not> bn_lt gas bn_0"
    and "\<not> (isStable (assets ! a) \<or> \<not> isTradable (assets ! a) \<or> \<not> isEnabled (assets ! a) \<or>
            \<not> isEnabled (assets ! c) \<or> (\<not> isLong \<and> \<not> isShortable (assets ! a)))"
    and "pnl = snd (computePositionPnlUsd now1 (assets ! a) (h0 ! r) isLong amount ap)"
    and "bn_lt pnl bn_0"
  shows "(bn_lt (collateral (h0 ! r)) (bn_div (bn_negated pnl) cp) \<longrightarrow>
            snd (computeClosePosition dec now1 now2 assets sid h0 r pid0 prices amount gas) =
              Inl (Error ''bankrupt'')) \<and>
         (\<not> bn_lt (collateral (h0 ! r)) (bn_div (bn_negated pnl) cp) \<longrightarrow>
            (\<exists>h3 res.
               collateral (h3 ! length h0) =
                 bn_minus (collateral (h0 ! r)) (bn_div (bn_negated pnl) cp) \<and>
               computeClosePosition dec now1 now2 assets sid h0 r pid0 prices amount gas =
                 (fst (settleFeeFromCollateral (reducePosition h3 (length h0) amount)
                         (length h0) cp gas
                         (computeFeeUsd (h0 ! r) (assets ! a) isLong amount ap) bn_0),
                  Inr res)))"
  using computeClosePosition_bankrupt [OF assms] computeClosePosition_loss_deducted [OF assms]
  by blast

text \<open>In the example market a position of 1 entered at 150 is closed at 99, a loss of 51.
  A collateral of 10 is bankrupt; of a collateral of 60 there remain 9 before the fee.\<close>

theorem computeClosePosition_loss_checks_bankruptcy_witness:
  "snd (computeClosePosition exampleDecode 2000000 2000000 exampleAssets ''id''
          [exampleAccount 10 1 150] 0 0 examplePrices (BN 1) (BN 2)) = Inl (Error ''bankrupt'') \<and>
   (\<exists>h3 res.
      collateral (h3 ! 1) = BN 9 \<and>
      computeClosePosition exampleDecode 2000000 2000000 exampleAssets ''id''
        [exampleAccount 60 1 150] 0 0 examplePrices (BN 1) (BN 2) =
        (fst (settleFeeFromCollateral (reducePosition h3 1 (BN 1)) 1 (BN 1) (BN 2)
                (BN (1089 / 1000)) bn_0),
         Inr res))"
proof
  have whole: "round_half_up DECIMAL_PLACES 51 = 51"
    by code_simp
  have amt: "\<not> (bn_lte (BN 1) bn_0 \<or> bn_gt (BN 1) (size_sa ([exampleAccount x 1 150] ! 0)))" for x
    by (simp add: example_defs bn_defs)
  have gas: "\<not> bn_lt (BN 2) bn_0"
    by simp
  have pnl: "BN (- 51) =
      snd (computePositionPnlUsd 2000000 (exampleAssets ! 1) ([exampleAccount x 1 150] ! 0) True
             (BN 1) (BN 99))" for x
    by (simp add: example_defs bn_defs valuation_defs)
  have loss: "bn_lt (BN (- 51)) bn_0"
    by simp
  have fee: "computeFeeUsd ([exampleAccount x 1 150] ! 0) (exampleAssets ! 1) True (BN 1) (BN 99) =
      BN (1089 / 1000)" for x
    by (simp add: example_defs bn_defs valuation_defs)
  note claim = computeClosePosition_loss_checks_bankruptcy [OF example_decode example_close_price
      example_profit_asset amt gas example_tradable pnl loss]
  from claim [of 10 2000000]
  show "snd (computeClosePosition exampleDecode 2000000 2000000 exampleAssets ''id''
          [exampleAccount 10 1 150] 0 0 examplePrices (BN 1) (BN 2)) = Inl (Error ''bankrupt'')"
    by (simp add: exampleAccount_def whole)
  from claim [of 60 2000000]
  show "\<exists>h3 res.
      collateral (h3 ! 1) = BN 9 \<and>
      computeClosePosition exampleDecode 2000000 2000000 exampleAssets ''id''
        [exampleAccount 60 1 150] 0 0 examplePrices (BN 1) (BN 2) =
        (fst (settleFeeFromCollateral (reducePosition h3 1 (BN 1)) 1 (BN 1) (BN 2)
                (BN (1089 / 1000)) bn_0),
         Inr res)"
    unfolding fee by (simp add: exampleAccount_def whole bn_minus_def)
qed

text \<open>Claim C1, as it is stated, fails: the close of the position above with a
  collateral of 10 has a negative realized pnl and throws ``bankrupt''.\<close>

theorem computeClosePosition_loss_counterexample:
  "bn_lt (snd (computePositionPnlUsd 2000000 (exampleAssets ! 1) ([exampleAccount 10 1 150] ! 0)
                 True (BN 1) (BN 99))) bn_0 \<and>
   snd (computeClosePosition exampleDecode 2000000 2000000 exampleAssets ''id''
          [exampleAccount 10 1 150] 0 0 examplePrices (BN 1) (BN 0)) = Inl (Error ''bankrupt'')"
proof
  have whole: "round_half_up DECIMAL_PLACES 51 = 51"
    by code_simp
  have pnl: "BN (- 51) =
      snd (computePositionPnlUsd 2000000 (exampleAssets ! 1) ([exampleAccount 10 1 150] ! 0) True
             (BN 1) (BN 99))"
    by (simp add: example_defs bn_defs valuation_defs)
  then show "bn_lt (snd (computePositionPnlUsd 2000000 (exampleAssets ! 1)
                 ([exampleAccount 10 1 150] ! 0) True (BN 1) (BN 99))) bn_0"
    by (simp add: example_defs bn_defs valuation_defs)
  show "snd (computeClosePosition exampleDecode 2000000 2000000 exampleAssets ''id''
          [exampleAccount 10 1 150] 0 0 examplePrices (BN 1) (BN 0)) = Inl (Error ''bankrupt'')"
    by (rule computeClosePosition_bankrupt [OF example_decode example_close_price
          example_profit_asset _ _ example_tradable pnl])
       (simp_all add: example_defs bn_defs whole)
qed

section \<open>The settlement of the fee of a close\<close>






section \<open>The valuation and the clock\<close>

lemma computePositionPnlUsd_clock:
  assumes "(nowSeconds now1 < lastIncreasedTime s + minProfitTime asset) =
           (nowSeconds now2 < lastIncreasedTime s + minProfitTime asset)"
  shows "computePositionPnlUsd now1 asset s isLong amount ap =
         computePositionPnlUsd now2 asset s isLong amount ap"
  using assms by (simp add: computePositionPnlUsd_def)

lemma computeSubAccount_pnlUsd:
  assumes "dec sid = (c, a, isLong)"
    and "computeSubAccount dec now assets sid h sa cp ap = Inr d"
  shows "pnlUsd (computed d) =
           snd (computePositionPnlUsd now (assets ! a) (h ! sa) isLong (size_sa (h ! sa)) ap)"
  using assms
  by (auto simp: computeSubAccount_def Let_def split: prod.splits if_splits)

text \<open>
  Claim C8, as the code has it. \<^verbatim>\<open>computeSubAccount\<close> reads the clock, in
  \<^verbatim>\<open>computePositionPnlUsd\<close>, to decide whether a profit is still locked. Two calls with
  the same arguments (and the same fields of the account) return the same
  \<^verbatim>\<open>SubAccountDetails\<close> when their readings of the clock are on the same side of
  \<^verbatim>\<open>lastIncreasedTime + minProfitTime\<close>, as two calls at the same time are.
\<close>

theorem computeSubAccount_same_side_of_lockup:
  assumes "dec sid = (c, a, isLong)"
    and "h1 ! sa = h2 ! sa"
    and "(nowSeconds now1 < lastIncreasedTime (h1 ! sa) + minProfitTime (assets ! a)) =
         (nowSeconds now2 < lastIncreasedTime (h1 ! sa) + minProfitTime (assets ! a))"
  shows "computeSubAccount dec now1 assets sid h1 sa cp ap =
         computeSubAccount dec now2 assets sid h2 sa cp ap"
proof -
  have "computePositionPnlUsd now1 (assets ! a) (h1 ! sa) isLong (size_sa (h1 ! sa)) ap =
        computePositionPnlUsd now2 (assets ! a) (h1 ! sa) isLong (size_sa (h1 ! sa)) ap"
    using assms(3) by (rule computePositionPnlUsd_clock)
  then show ?thesis
    unfolding computeSubAccount_def Let_def assms(2) [symmetric]
    by (simp add: assms(1))
qed

text \<open>In the example market a position entered at 98 and increased at the second 1000 is
  valued at 99, at the seconds 2000 and 3000: the lockup of 60 seconds is over at both.\<close>

theorem computeSubAccount_same_side_of_lockup_witness:
  "computeSubAccount exampleDecode 2000000 exampleAssets ''id'' [exampleAccount 10 1 98] 0
     (BN 1) (BN 99) =
   computeSubAccount exampleDecode 3000000 exampleAssets ''id'' [exampleAccount 10 1 98] 0
     (BN 1) (BN 99)"
proof -
  have same: "[exampleAccount 10 1 98] ! 0 = [exampleAccount 10 1 98] ! 0"
    by simp
  have side: "(nowSeconds 2000000 <
                 lastIncreasedTime ([exampleAccount 10 1 98] ! 0) +
                 minProfitTime (exampleAssets ! 1)) =
              (nowSeconds 3000000 <
                 lastIncreasedTime ([exampleAccount 10 1 98] ! 0) +
                 minProfitTime (exampleAssets ! 1))"
    by (simp add: example_defs nowSeconds_def)
  from computeSubAccount_same_side_of_lockup [where dec = exampleDecode and sid = "''id''"
      and c = 0 and a = 1 and isLong = True and ?h1.0 = "[exampleAccount 10 1 98]"
      and ?h2.0 = "[exampleAccount 10 1 98]" and sa = 0 and ?now1.0 = 2000000
      and ?now2.0 = 3000000 and assets = exampleAssets, OF example_decode same side]
  show ?thesis .
qed

text \<open>Claim C8, as it is stated, fails: at the second 1000 the profit of 1 of that
  position is locked and \<^verbatim>\<open>pnlUsd\<close> is 0, at the second 2000 \<^verbatim>\<open>pnlUsd\<close> is 1, the
  arguments being the same.\<close>

theorem computeSubAccount_clock_counterexample:
  "computeSubAccount exampleDecode 1000000 exampleAssets ''id'' [exampleAccount 10 1 98] 0
     (BN 1) (BN 99) \<noteq>
   computeSubAccount exampleDecode 2000000 exampleAssets ''id'' [exampleAccount 10 1 98] 0
     (BN 1) (BN 99)"
proof
  assume same: "computeSubAccount exampleDecode 1000000 exampleAssets ''id''
      [exampleAccount 10 1 98] 0 (BN 1) (BN 99) =
    computeSubAccount exampleDecode 2000000 exampleAssets ''id''
      [exampleAccount 10 1 98] 0 (BN 1) (BN 99)"
  have "1 < length exampleAssets"
    by (simp add: exampleAssets_def)
  from computeSubAccount_Inr [of exampleDecode "''id''" 0 1 True exampleAssets 2000000
      "[exampleAccount 10 1 98]" 0 "BN 1" "BN 99", OF example_decode this]
  obtain d where late: "computeSubAccount exampleDecode 2000000 exampleAssets ''id''
      [exampleAccount 10 1 98] 0 (BN 1) (BN 99) = Inr d"
    by blast
  with same have early: "computeSubAccount exampleDecode 1000000 exampleAssets ''id''
      [exampleAccount 10 1 98] 0 (BN 1) (BN 99) = Inr d"
    by simp
  from computeSubAccount_pnlUsd [OF example_decode early]
  have "pnlUsd (computed d) = BN 0"
    by (simp add: example_defs bn_defs valuation_defs)
  moreover from computeSubAccount_pnlUsd [OF example_decode late]
  have "pnlUsd (computed d) = BN 1"
    by (simp add: example_defs bn_defs valuation_defs)
  ultimately show False
    by simp
qed

end
